theory Spec2Isabelle
  imports Main "HOL-Library.Sublist"
begin

section \<open>JavaScript strings, arrays and promises\<close>

text \<open>
  The handler \<^verbatim>\<open>OpenMetadataHandler.ts\<close> and its \<^verbatim>\<open>Utils.ts\<close> work on JavaScript
  strings. A string is modelled as a \<^typ>\<open>string\<close>, one \<^typ>\<open>char\<close> per code unit (the
  code units of a \<^typ>\<open>char\<close> are those up to 255; the handler compares code units with
  ASCII separators and suffixes only, and counts them). A value that may be
  \<^verbatim>\<open>undefined\<close> (an array element read by index, a property of a catalog record) is
  a \<^typ>\<open>string option\<close> with \<^term>\<open>None\<close> for \<^verbatim>\<open>undefined\<close>.
\<close>

type_synonym jsval = "string option"

text \<open>String conversion as done by a template literal: \<^verbatim>\<open>`${undefined}`\<close> is
  the text \<^verbatim>\<open>undefined\<close>.\<close>

definition js_str :: "jsval \<Rightarrow> string" where
  "js_str v = (case v of None \<Rightarrow> ''undefined'' | Some s \<Rightarrow> s)"

text \<open>\<^verbatim>\<open>xs[i]\<close>: reading outside the array gives \<^verbatim>\<open>undefined\<close>.\<close>

definition js_index :: "string list \<Rightarrow> int \<Rightarrow> jsval" where
  "js_index xs i = (if 0 \<le> i \<and> i < int (length xs) then Some (xs ! nat i) else None)"

text \<open>
  \<^verbatim>\<open>s.split(sep)\<close> for a string separator: the string is scanned from the left, every
  occurrence of the separator ends the current segment and the scan resumes behind it;
  the rest of the string is the last segment. \<open>cur\<close> is the segment read so far.
\<close>

function split_from :: "string \<Rightarrow> string \<Rightarrow> string \<Rightarrow> string list" where
  "split_from sep cur [] = [cur]"
| "split_from sep cur (c # cs) =
     (if sep \<noteq> [] \<and> prefix sep (c # cs)
      then cur # split_from sep [] (drop (length sep) (c # cs))
      else split_from sep (cur @ [c]) cs)"
  by pat_completeness auto
termination
  by (relation "measure (\<lambda>(sep, cur, s). length s)") auto

text \<open>With the empty separator JavaScript splits into the single code units.\<close>

definition js_split :: "string \<Rightarrow> string \<Rightarrow> string list" where
  "js_split s sep = (if sep = [] then map (\<lambda>c. [c]) s else split_from sep [] s)"

text \<open>\<^verbatim>\<open>s.endsWith(t)\<close>.\<close>

definition endsWith :: "string \<Rightarrow> string \<Rightarrow> bool" where
  "endsWith s t = suffix t s"

text \<open>\<^verbatim>\<open>s.substring(0, e)\<close>: an end index below zero counts as zero, one beyond the
  length as the length.\<close>

definition substring0 :: "string \<Rightarrow> int \<Rightarrow> string" where
  "substring0 s e = take (nat (min (max e 0) (int (length s)))) s"

subsection \<open>Errors and effects\<close>

text \<open>
  \<^verbatim>\<open>new Error(msg)\<close> thrown by the handler is \<open>Error msg\<close>. \<open>TypeError\<close> is a method
  call on \<^verbatim>\<open>undefined\<close>, \<open>URIError\<close> is thrown by \<^verbatim>\<open>decodeURIComponent\<close>, and
  \<open>Rejected msg\<close> is a failure of an external collaborator: the transport of the org
  connection or the command run by \<^verbatim>\<open>exec\<close>.
\<close>

datatype error = Error string | TypeError | URIError | Rejected string

text \<open>The two query interfaces of the connection: \<^verbatim>\<open>conn.tooling.sobject(name).find(conditions).execute()\<close>
  and \<^verbatim>\<open>conn.query(soql)\<close>.\<close>

datatype request = ToolingFind string "(string \<times> jsval) list" | Soql string

text \<open>What a run does to the outside: the queries it sends and the commands it runs.\<close>

datatype effect = Sent request | Ran string

text \<open>A catalog record: its properties by name.\<close>

type_synonym sf_record = "string \<Rightarrow> jsval"

text \<open>An asynchronous computation: the effects it had, in order, and how its promise
  settles.\<close>

type_synonym 'a io = "effect list \<times> (error + 'a)"

definition io_return :: "'a \<Rightarrow> 'a io" where
  "io_return x = ([], Inr x)"

definition io_throw :: "error \<Rightarrow> 'a io" where
  "io_throw e = ([], Inl e)"

text \<open>\<^verbatim>\<open>const x = await m; ...\<close>: a rejected \<open>m\<close> ends the function, nothing behind it runs.\<close>

definition io_bind :: "'a io \<Rightarrow> ('a \<Rightarrow> 'b io) \<Rightarrow> 'b io" where
  "io_bind m f =
     (case snd m of
        Inl e \<Rightarrow> (fst m, Inl e)
      | Inr x \<Rightarrow> (fst m @ fst (f x), snd (f x)))"

text \<open>
  \<^verbatim>\<open>await Promise.all([p, q])\<close> of two promises already started: both have had their
  effects. It rejects as soon as one of them rejects; when both reject, the one that
  rejects first in time decides, which \<open>second_first\<close> records.
\<close>

definition promise_all2 :: "bool \<Rightarrow> 'a io \<Rightarrow> 'b io \<Rightarrow> ('a \<times> 'b) io" where
  "promise_all2 second_first p q =
     (fst p @ fst q,
      case snd p of
        Inr a \<Rightarrow> (case snd q of Inr b \<Rightarrow> Inr (a, b) | Inl e \<Rightarrow> Inl e)
      | Inl e \<Rightarrow> (case snd q of Inr b \<Rightarrow> Inl e | Inl e' \<Rightarrow> Inl (if second_first then e' else e)))"

subsection \<open>The collaborators\<close>

text \<open>
  The connection handed to the handler (\<^verbatim>\<open>Connection\<close> of \<^verbatim>\<open>@salesforce/core\<close>): the
  org's base URL and the answer to every query, a list of records or a rejection.
  \<open>second_rejects_first\<close> is the order in time of two rejections under
  \<^verbatim>\<open>Promise.all\<close>.
\<close>

record connection =
  instanceUrl :: string
  respond :: "request \<Rightarrow> error + sf_record list"
  second_rejects_first :: bool

text \<open>\<^verbatim>\<open>path.ParsedPath\<close> of Node.\<close>

record parsed_path =
  root :: string
  dir :: string
  base :: string
  ext :: string
  name :: string

text \<open>
  What the handler uses of the Node runtime: \<^verbatim>\<open>process.platform\<close>, \<^verbatim>\<open>path.sep\<close>,
  \<^verbatim>\<open>path.parse\<close>, \<^verbatim>\<open>decodeURIComponent\<close> (\<^term>\<open>None\<close> when it throws) and the
  promisified \<^verbatim>\<open>exec\<close> (\<^term>\<open>None\<close> when the command succeeds, the error otherwise).
\<close>

record runtime =
  platform :: string
  path_sep :: string
  path_parse :: "string \<Rightarrow> parsed_path"
  decodeURIComponent :: "string \<Rightarrow> string option"
  exec :: "string \<Rightarrow> error option"

definition tooling_find :: "connection \<Rightarrow> string \<Rightarrow> (string \<times> jsval) list \<Rightarrow> sf_record list io" where
  "tooling_find c sobject conditions =
     ([Sent (ToolingFind sobject conditions)], respond c (ToolingFind sobject conditions))"

definition conn_query :: "connection \<Rightarrow> string \<Rightarrow> sf_record list io" where
  "conn_query c soql = ([Sent (Soql soql)], respond c (Soql soql))"

definition execPromise :: "runtime \<Rightarrow> string \<Rightarrow> unit io" where
  "execPromise rt cmd = ([Ran cmd], case exec rt cmd of None \<Rightarrow> Inr () | Some e \<Rightarrow> Inl e)"

section \<open>Utils.ts\<close>

definition isStandardField :: "string \<Rightarrow> bool" where
  "isStandardField apiName = (\<not> endsWith apiName ''__c'')"

definition isCustomMetadata :: "string \<Rightarrow> bool" where
  "isCustomMetadata apiName = endsWith apiName ''__mdt''"

definition isPlatformEvent :: "string \<Rightarrow> bool" where
  "isPlatformEvent apiName = endsWith apiName ''__e''"

definition isStandardObject :: "string \<Rightarrow> bool" where
  "isStandardObject apiName =
     (\<not> (endsWith apiName ''__c'' \<or> isCustomMetadata apiName \<or> isPlatformEvent apiName))"

definition getObjectFieldDeveloperName :: "string \<Rightarrow> jsval" where
  "getObjectFieldDeveloperName fileName =
     (let fieldSplitted = js_split fileName ''__''
      in if length fieldSplitted > 2 then js_index fieldSplitted 1 else js_index fieldSplitted 0)"

definition isWindows :: "runtime \<Rightarrow> bool" where
  "isWindows rt = (platform rt = ''win32'')"

section \<open>OpenMetadataHandler.ts\<close>

subsection \<open>Path classification\<close>

definition getExtension :: "string \<Rightarrow> jsval" where
  "getExtension pathParsedBase =
     (let fileNameSplitted = js_split pathParsedBase ''.'';
          n = int (length fileNameSplitted)
      in if n > 2
         then Some (js_str (js_index fileNameSplitted (n - 2)) @ ''.'' @
                    js_str (js_index fileNameSplitted (n - 1)))
         else js_index fileNameSplitted (n - 1))"

subsection \<open>The resolvers and their dispatch\<close>

text \<open>The subclasses of \<^verbatim>\<open>Metadata\<close>; \<open>getUrl\<close> below dispatches on the tag as the
  method call does on the class.\<close>

datatype resolver =
    Flow | Field | ValidationRule | FlexiPage | Profile | PermissionSet
  | PermissionSetGroup | ApexClass | ApexTrigger | RecordType | PageLayout
  | SObject | GlobalValueSet | QuickAction | ApprovalProcess

record metadata =
  kind :: resolver
  conn :: connection
  extension :: string
  pathParsed :: parsed_path
  metadataApiName :: string

text \<open>The constructor of \<^verbatim>\<open>Metadata\<close>, which every subclass inherits.\<close>

definition new_Metadata :: "resolver \<Rightarrow> connection \<Rightarrow> string \<Rightarrow> parsed_path \<Rightarrow> metadata" where
  "new_Metadata k c extension' p =
     \<lparr> kind = k, conn = c, extension = extension', pathParsed = p,
       metadataApiName =
         substring0 (base p) (int (length (base p)) - (int (length extension') + 1)) \<rparr>"

text \<open>
  \<^verbatim>\<open>Factory.create\<close>. The connection and the parsed path are objects, hence truthy; the
  extension is falsy when it is \<^verbatim>\<open>undefined\<close> or the empty string.
\<close>

definition create :: "connection \<Rightarrow> jsval \<Rightarrow> parsed_path \<Rightarrow> error + metadata" where
  "create c extension' p =
     (case extension' of
        None \<Rightarrow> Inl (Error ''Invalid parameters'')
      | Some e \<Rightarrow>
          if e = [] then Inl (Error ''Invalid parameters'')
          else if e = ''flow-meta.xml'' then Inr (new_Metadata Flow c e p)
          else if e = ''field-meta.xml'' then Inr (new_Metadata Field c e p)
          else if e = ''validationRule-meta.xml'' then Inr (new_Metadata ValidationRule c e p)
          else if e = ''flexipage-meta.xml'' then Inr (new_Metadata FlexiPage c e p)
          else if e = ''profile-meta.xml'' then Inr (new_Metadata Profile c e p)
          else if e = ''permissionset-meta.xml'' then Inr (new_Metadata PermissionSet c e p)
          else if e = ''permissionsetgroup-meta.xml'' then Inr (new_Metadata PermissionSetGroup c e p)
          else if e = ''cls'' then Inr (new_Metadata ApexClass c e p)
          else if e = ''trigger'' then Inr (new_Metadata ApexTrigger c e p)
          else if e = ''recordType-meta.xml'' then Inr (new_Metadata RecordType c e p)
          else if e = ''layout-meta.xml'' then Inr (new_Metadata PageLayout c e p)
          else if e = ''object-meta.xml'' then Inr (new_Metadata SObject c e p)
          else if e = ''globalValueSet-meta.xml'' then Inr (new_Metadata GlobalValueSet c e p)
          else if e = ''quickAction-meta.xml'' then Inr (new_Metadata QuickAction c e p)
          else if e = ''approvalProcess-meta.xml'' then Inr (new_Metadata ApprovalProcess c e p)
          else Inl (Error ''Unsupported metadata type''))"

subsection \<open>Object-id lookup\<close>

text \<open>
  \<^verbatim>\<open>getObjectId\<close>. Callers pass array elements, which may be \<^verbatim>\<open>undefined\<close>; then
  \<^verbatim>\<open>fileName.split\<close> inside \<^verbatim>\<open>getObjectFieldDeveloperName\<close> throws before any
  query is sent. The result is the \<^verbatim>\<open>Id\<close> property of the first record.
\<close>

definition getObjectId :: "connection \<Rightarrow> jsval \<Rightarrow> jsval io" where
  "getObjectId c objectName =
     (case objectName of
        None \<Rightarrow> io_throw TypeError
      | Some n \<Rightarrow>
          io_bind (tooling_find c ''CustomObject'' [(''DeveloperName'', getObjectFieldDeveloperName n)])
            (\<lambda>records.
               if length records = 0
               then io_throw (Error (''Object not found for '' @ js_str objectName))
               else io_return ((records ! 0) ''Id'')))"

subsection \<open>The resolvers\<close>

definition ApprovalProcess_getUrl :: "metadata \<Rightarrow> string io" where
  "ApprovalProcess_getUrl m =
     io_bind (conn_query (conn m)
        (''SELECT Id FROM ProcessDefinition WHERE DeveloperName = '' @ [CHR 0x27] @
         js_str (js_index (js_split (metadataApiName m) ''.'') 1) @
         [CHR 0x27] @ '' AND Type = '' @ [CHR 0x27] @ ''Approval'' @ [CHR 0x27]))
       (\<lambda>records.
          if length records = 0
          then io_throw (Error (''Approval process not found for '' @ metadataApiName m))
          else io_return (''lightning/setup/ApprovalProcesses/page?address=%2F'' @
                          js_str ((records ! 0) ''Id'')))"

definition SObject_getUrl :: "metadata \<Rightarrow> string io" where
  "SObject_getUrl m =
     io_bind (getObjectId (conn m) (Some (metadataApiName m)))
       (\<lambda>objectId.
          if isCustomMetadata (metadataApiName m)
          then io_return (''lightning/setup/CustomMetadata/page?address=%2F'' @ js_str objectId @
                          ''%3Fsetupid%3DCustomMetadata'')
          else if isPlatformEvent (metadataApiName m)
          then io_return (''lightning/setup/EventObjects/page?address=%2F'' @ js_str objectId @
                          ''%3Fsetupid%3DEventObjects'')
          else io_return (''lightning/setup/ObjectManager/'' @ js_str objectId @ ''/Details/view''))"

definition GlobalValueSet_getUrl :: "metadata \<Rightarrow> string io" where
  "GlobalValueSet_getUrl m =
     io_bind (tooling_find (conn m) ''GlobalValueSet'' [(''DeveloperName'', Some (metadataApiName m))])
       (\<lambda>records.
          if length records = 0
          then io_throw (Error (''GlobalValueSet not found for '' @ metadataApiName m))
          else io_return (''lightning/setup/Picklists/page?address=%2F'' @
                          js_str ((records ! 0) ''Id'')))"

text \<open>Both lookups are started before \<^verbatim>\<open>Promise.all\<close> awaits them.\<close>

definition QuickAction_getUrl :: "metadata \<Rightarrow> string io" where
  "QuickAction_getUrl m =
     (let splitObjectNameLayoutName = js_split (metadataApiName m) ''.'';
          objectName = js_index splitObjectNameLayoutName 0;
          quickActionName = js_index splitObjectNameLayoutName 1;
          objIdPromise = getObjectId (conn m) objectName;
          quickActionPromise =
            tooling_find (conn m) ''QuickActionDefinition'' [(''DeveloperName'', quickActionName)]
      in io_bind (promise_all2 (second_rejects_first (conn m)) objIdPromise quickActionPromise)
           (\<lambda>(objectId, quickActionRecords).
              if length quickActionRecords = 0
              then io_throw (Error (''QuickAction not found for '' @ js_str quickActionName))
              else io_return (''lightning/setup/ObjectManager/'' @ js_str objectId @
                              ''/ButtonsLinksActions/'' @
                              js_str ((quickActionRecords ! 0) ''Id'') @ ''/view'')))"

text \<open>
  The object lookup is started first; \<^verbatim>\<open>decodeURIComponent\<close> is called while the
  layout query is being built, and when it throws the layout query is never sent.
\<close>

definition PageLayout_getUrl :: "runtime \<Rightarrow> metadata \<Rightarrow> string io" where
  "PageLayout_getUrl rt m =
     (let splitObjectNameLayoutName = js_split (metadataApiName m) ''-'';
          objectName = js_index splitObjectNameLayoutName 0;
          layoutName = js_index splitObjectNameLayoutName 1;
          objIdPromise = getObjectId (conn m) objectName
      in case decodeURIComponent rt (js_str layoutName) of
           None \<Rightarrow> (fst objIdPromise, Inl URIError)
         | Some decoded \<Rightarrow>
             io_bind (promise_all2 (second_rejects_first (conn m)) objIdPromise
                        (tooling_find (conn m) ''Layout'' [(''Name'', Some decoded)]))
               (\<lambda>(objectId, layoutRecords).
                  if length layoutRecords = 0
                  then io_throw (Error (''Layout not found for '' @ js_str layoutName))
                  else io_return (''lightning/setup/ObjectManager/'' @ js_str objectId @
                                  ''/PageLayouts/'' @
                                  js_str ((layoutRecords ! 0) ''Id'') @ ''/view'')))"

definition RecordType_getUrl :: "runtime \<Rightarrow> metadata \<Rightarrow> string io" where
  "RecordType_getUrl rt m =
     (let arrayPath = js_split (dir (pathParsed m)) (path_sep rt);
          objectFolderName = js_index arrayPath (int (length arrayPath) - 2);
          objIdPromise = getObjectId (conn m) objectFolderName;
          recordTypePromise =
            conn_query (conn m)
              (''SELECT Id, DeveloperName FROM RecordType WHERE DeveloperName = '' @ [CHR 0x27] @
               metadataApiName m @ [CHR 0x27])
      in io_bind (promise_all2 (second_rejects_first (conn m)) objIdPromise recordTypePromise)
           (\<lambda>(objectId, recordTypeResult).
              if length recordTypeResult = 0
              then io_throw (Error (''RecordType not found for '' @ metadataApiName m))
              else io_return (''lightning/setup/ObjectManager/'' @ js_str objectId @
                              ''/RecordTypes/'' @
                              js_str ((recordTypeResult ! 0) ''Id'') @ ''/view'')))"

definition Flow_getUrl :: "metadata \<Rightarrow> string io" where
  "Flow_getUrl m =
     io_bind (tooling_find (conn m) ''FlowDefinition'' [(''DeveloperName'', Some (metadataApiName m))])
       (\<lambda>records.
          if length records = 0
          then io_throw (Error (''Flow not found for '' @ metadataApiName m))
          else io_return (''lightning/setup/Flows/page?address=%2F'' @
                          js_str ((records ! 0) ''Id'')))"

definition ValidationRule_getUrl :: "metadata \<Rightarrow> string io" where
  "ValidationRule_getUrl m =
     io_bind (tooling_find (conn m) ''ValidationRule'' [(''ValidationName'', Some (metadataApiName m))])
       (\<lambda>records.
          if length records = 0
          then io_throw (Error (''ValidationRule not found for '' @ metadataApiName m))
          else io_return (''lightning/setup/ObjectManager/'' @
                          js_str ((records ! 0) ''EntityDefinitionId'') @
                          ''/ValidationRules/'' @ js_str ((records ! 0) ''Id'') @ ''/view''))"

definition FlexiPage_getUrl :: "metadata \<Rightarrow> string io" where
  "FlexiPage_getUrl m =
     io_bind (tooling_find (conn m) ''FlexiPage'' [(''DeveloperName'', Some (metadataApiName m))])
       (\<lambda>records.
          if length records = 0
          then io_throw (Error (''FlexiPage not found for '' @ metadataApiName m))
          else io_return (''visualEditor/appBuilder.app?id='' @ js_str ((records ! 0) ''Id'')))"

definition Profile_getUrl :: "metadata \<Rightarrow> string io" where
  "Profile_getUrl m =
     io_bind (tooling_find (conn m) ''Profile'' [(''Name'', Some (metadataApiName m))])
       (\<lambda>records.
          if length records = 0
          then io_throw (Error (''Profile not found for '' @ metadataApiName m))
          else io_return (''lightning/setup/EnhancedProfiles/page?address=%2F'' @
                          js_str ((records ! 0) ''Id'')))"

definition PermissionSet_getUrl :: "metadata \<Rightarrow> string io" where
  "PermissionSet_getUrl m =
     io_bind (tooling_find (conn m) ''PermissionSet'' [(''Name'', Some (metadataApiName m))])
       (\<lambda>records.
          if length records = 0
          then io_throw (Error (''PermissionSet not found for '' @ metadataApiName m))
          else io_return (''lightning/setup/PermSets/page?address=%2F'' @
                          js_str ((records ! 0) ''Id'')))"

definition PermissionSetGroup_getUrl :: "metadata \<Rightarrow> string io" where
  "PermissionSetGroup_getUrl m =
     io_bind (tooling_find (conn m) ''PermissionSetGroup'' [(''DeveloperName'', Some (metadataApiName m))])
       (\<lambda>records.
          if length records = 0
          then io_throw (Error (''PermissionSetGroup not found for '' @ metadataApiName m))
          else io_return (''lightning/setup/PermSetGroups/page?address=%2F'' @
                          js_str ((records ! 0) ''Id'')))"

definition ApexClass_getUrl :: "metadata \<Rightarrow> string io" where
  "ApexClass_getUrl m =
     io_bind (tooling_find (conn m) ''ApexClass'' [(''Name'', Some (metadataApiName m))])
       (\<lambda>records.
          if length records = 0
          then io_throw (Error (''ApexClass not found for '' @ metadataApiName m))
          else io_return (''lightning/setup/ApexClasses/page?address=%2F'' @
                          js_str ((records ! 0) ''Id'')))"

definition ApexTrigger_getUrl :: "metadata \<Rightarrow> string io" where
  "ApexTrigger_getUrl m =
     io_bind (tooling_find (conn m) ''ApexTrigger'' [(''Name'', Some (metadataApiName m))])
       (\<lambda>records.
          if length records = 0
          then io_throw (Error (''ApexTrigger not found for '' @ metadataApiName m))
          else io_return (''lightning/setup/ApexTriggers/page?address=%2F'' @
                          js_str ((records ! 0) ''Id'')))"

text \<open>
  \<^verbatim>\<open>Field.getUrl\<close> assigns to \<^verbatim>\<open>this.metadataApiName\<close>; the object is not used again
  after the call, so the new value is the local \<open>apiName\<close> here. In the custom branch
  \<^verbatim>\<open>isCustomMetadata(objectFolderName)\<close> is reached only behind \<^verbatim>\<open>getObjectId\<close>,
  which has thrown already when the folder name is \<^verbatim>\<open>undefined\<close>.
\<close>

definition Field_getUrl :: "runtime \<Rightarrow> metadata \<Rightarrow> string io" where
  "Field_getUrl rt m =
     (let arrayPath = js_split (dir (pathParsed m)) (path_sep rt);
          objectFolderName = js_index arrayPath (int (length arrayPath) - 2)
      in if isStandardField (metadataApiName m)
         then
           (let apiName =
                  (if endsWith (metadataApiName m) ''Id''
                   then substring0 (metadataApiName m) (int (length (metadataApiName m)) - 2)
                   else metadataApiName m)
            in io_return (''lightning/setup/ObjectManager/'' @ js_str objectFolderName @
                          ''/FieldsAndRelationships/'' @ apiName @ ''/view''))
         else
           (let apiName = getObjectFieldDeveloperName (metadataApiName m)
            in io_bind (getObjectId (conn m) objectFolderName)
                 (\<lambda>objectId.
                    io_bind (tooling_find (conn m) ''CustomField''
                               [(''DeveloperName'', apiName), (''TableEnumOrId'', objectId)])
                      (\<lambda>fieldRecords.
                         if length fieldRecords = 0
                         then io_throw (Error (''Field not found for '' @ js_str apiName))
                         else
                           (let fieldData = fieldRecords ! 0
                            in case objectFolderName of
                                 None \<Rightarrow> io_throw TypeError
                               | Some folder \<Rightarrow>
                                   if isCustomMetadata folder
                                   then io_return (''lightning/setup/CustomMetadata/page?address=%2F'' @
                                                   js_str (fieldData ''Id'') @
                                                   ''%3Fsetupid%3DCustomMetadata'')
                                   else if isPlatformEvent folder
                                   then io_return (''lightning/setup/EventObjects/page?address=%2F'' @
                                                   js_str (fieldData ''Id'') @
                                                   ''%3Fsetupid%3DEventObjects'')
                                   else io_return (''lightning/setup/ObjectManager/'' @
                                                   js_str objectId @ ''/FieldsAndRelationships/'' @
                                                   js_str (fieldData ''Id'') @ ''/view''))))))"

definition getUrl :: "runtime \<Rightarrow> metadata \<Rightarrow> string io" where
  "getUrl rt m =
     (case kind m of
        Flow \<Rightarrow> Flow_getUrl m
      | Field \<Rightarrow> Field_getUrl rt m
      | ValidationRule \<Rightarrow> ValidationRule_getUrl m
      | FlexiPage \<Rightarrow> FlexiPage_getUrl m
      | Profile \<Rightarrow> Profile_getUrl m
      | PermissionSet \<Rightarrow> PermissionSet_getUrl m
      | PermissionSetGroup \<Rightarrow> PermissionSetGroup_getUrl m
      | ApexClass \<Rightarrow> ApexClass_getUrl m
      | ApexTrigger \<Rightarrow> ApexTrigger_getUrl m
      | RecordType \<Rightarrow> RecordType_getUrl rt m
      | PageLayout \<Rightarrow> PageLayout_getUrl rt m
      | SObject \<Rightarrow> SObject_getUrl m
      | GlobalValueSet \<Rightarrow> GlobalValueSet_getUrl m
      | QuickAction \<Rightarrow> QuickAction_getUrl m
      | ApprovalProcess \<Rightarrow> ApprovalProcess_getUrl m)"

subsection \<open>The entry point\<close>

definition go :: "runtime \<Rightarrow> connection \<Rightarrow> string \<Rightarrow> unit io" where
  "go rt c pathString =
     (let p = path_parse rt pathString;
          extension' = getExtension (base p)
      in case create c extension' p of
           Inl e \<Rightarrow> io_throw e
         | Inr m \<Rightarrow>
             io_bind (getUrl rt m)
               (\<lambda>url.
                  let completeUrl = instanceUrl c @ ''/'' @ url
                  in if isWindows rt
                     then execPromise rt (''start '' @ completeUrl)
                     else execPromise rt (''open '' @ completeUrl)))"

section \<open>Notions used to state the properties\<close>

text \<open>
  \<open>no_sep_in sep a t\<close>: in the string \<open>a @ t\<close> the separator starts at no position of
  \<open>a\<close>. With \<open>t\<close> the separator itself, \<open>a\<close> is a whole segment of the split: it
  contains no separator and none begins in it.
\<close>

primrec no_sep_in :: "string \<Rightarrow> string \<Rightarrow> string \<Rightarrow> bool" where
  "no_sep_in sep [] t = True"
| "no_sep_in sep (c # cs) t = (\<not> prefix sep (c # cs @ t) \<and> no_sep_in sep cs t)"

text \<open>The dispatch table of \<^verbatim>\<open>Factory.create\<close>: the registered tokens, each with the
  resolver it selects.\<close>

definition registered :: "(string \<times> resolver) list" where
  "registered =
     [(''flow-meta.xml'', Flow), (''field-meta.xml'', Field),
      (''validationRule-meta.xml'', ValidationRule), (''flexipage-meta.xml'', FlexiPage),
      (''profile-meta.xml'', Profile), (''permissionset-meta.xml'', PermissionSet),
      (''permissionsetgroup-meta.xml'', PermissionSetGroup), (''cls'', ApexClass),
      (''trigger'', ApexTrigger), (''recordType-meta.xml'', RecordType),
      (''layout-meta.xml'', PageLayout), (''object-meta.xml'', SObject),
      (''globalValueSet-meta.xml'', GlobalValueSet), (''quickAction-meta.xml'', QuickAction),
      (''approvalProcess-meta.xml'', ApprovalProcess)]"

text \<open>The second-to-last segment of the directory of the file, the folder of the
  object a field or record type belongs to; \<^verbatim>\<open>undefined\<close> when the directory has a
  single segment.\<close>

definition object_folder :: "runtime \<Rightarrow> metadata \<Rightarrow> jsval" where
  "object_folder rt m =
     js_index (js_split (dir (pathParsed m)) (path_sep rt))
       (int (length (js_split (dir (pathParsed m)) (path_sep rt))) - 2)"

text \<open>The commands among the effects of a run, and the queries among them.\<close>

definition commands :: "effect list \<Rightarrow> string list" where
  "commands log = concat (map (\<lambda>e. case e of Ran cmd \<Rightarrow> [cmd] | Sent r \<Rightarrow> []) log)"

definition queries :: "effect list \<Rightarrow> request list" where
  "queries log = concat (map (\<lambda>e. case e of Sent r \<Rightarrow> [r] | Ran cmd \<Rightarrow> []) log)"

text \<open>The connection that answers every query with at most the first record of the
  answer of \<open>c\<close>.\<close>

definition first_only :: "connection \<Rightarrow> connection" where
  "first_only c =
     c\<lparr>respond := (\<lambda>r. case respond c r of Inl e \<Rightarrow> Inl e | Inr records \<Rightarrow> Inr (take 1 records))\<rparr>"

text \<open>The query of the object-id lookup for an object name.\<close>

definition object_query :: "string \<Rightarrow> request" where
  "object_query n = ToolingFind ''CustomObject'' [(''DeveloperName'', getObjectFieldDeveloperName n)]"

text \<open>A query whose answer is cut down to its first record.\<close>

definition truncated :: "sf_record list io \<Rightarrow> sf_record list io" where
  "truncated p =
     (fst p, case snd p of Inl e \<Rightarrow> Inl e | Inr records \<Rightarrow> Inr (take 1 records))"

text \<open>One of the queries of a run was answered with no record.\<close>

definition unmatched :: "connection \<Rightarrow> effect list \<Rightarrow> bool" where
  "unmatched c log =
     list_ex (\<lambda>r. case respond c r of Inl e \<Rightarrow> False | Inr records \<Rightarrow> records = []) (queries log)"

text \<open>
  The segments of a name at a separator of one character: the text before the first
  separator, and the text between the first separator and the second (or the end of
  the name), which there is only when the name holds a separator.
\<close>

definition first_segment :: "char \<Rightarrow> string \<Rightarrow> string" where
  "first_segment c s = takeWhile (\<lambda>x. x \<noteq> c) s"

definition second_segment :: "char \<Rightarrow> string \<Rightarrow> jsval" where
  "second_segment c s =
     (if c \<in> set s then Some (first_segment c (drop 1 (dropWhile (\<lambda>x. x \<noteq> c) s))) else None)"

text \<open>
  What a resolver does, by the answers of the connection. One lookup: the query is
  sent; a rejection is passed on, no record is the error \<open>missing\<close>, and otherwise the
  URL is built from the first record.
\<close>

definition single_lookup ::
  "connection \<Rightarrow> request \<Rightarrow> error \<Rightarrow> (sf_record \<Rightarrow> string) \<Rightarrow> string io" where
  "single_lookup c q missing url =
     ([Sent q],
      case respond c q of
        Inl e \<Rightarrow> Inl e
      | Inr records \<Rightarrow> (case records of [] \<Rightarrow> Inl missing | r # rs \<Rightarrow> Inr (url r)))"

text \<open>
  The object-id lookup for \<open>ob\<close> and a second lookup, both sent at once. A failure of
  the object-id lookup (a rejection, or \<^verbatim>\<open>Object not found\<close>) decides, unless the second
  query is rejected too and earlier; then a rejection of the second query; then its
  answer: no record is the error \<open>missing\<close>, otherwise the URL is built from the id of the
  first object record and the first record of the second query.
\<close>

definition joined_lookups ::
  "connection \<Rightarrow> string \<Rightarrow> request \<Rightarrow> error \<Rightarrow> (jsval \<Rightarrow> sf_record \<Rightarrow> string) \<Rightarrow> string io" where
  "joined_lookups c ob q missing url =
     ([Sent (object_query ob), Sent q],
      case respond c (object_query ob) of
        Inl e \<Rightarrow>
          (case respond c q of
             Inl e' \<Rightarrow> Inl (if second_rejects_first c then e' else e)
           | Inr records \<Rightarrow> Inl e)
      | Inr objects \<Rightarrow>
          (case objects of
             [] \<Rightarrow>
               (case respond c q of
                  Inl e' \<Rightarrow>
                    Inl (if second_rejects_first c then e'
                         else Error (''Object not found for '' @ ob))
                | Inr records \<Rightarrow> Inl (Error (''Object not found for '' @ ob)))
           | x # xs \<Rightarrow>
               (case respond c q of
                  Inl e' \<Rightarrow> Inl e'
                | Inr records \<Rightarrow>
                    (case records of
                       [] \<Rightarrow> Inl missing
                     | y # ys \<Rightarrow> Inr (url (x ''Id'') y)))))"

text \<open>
  The object-id lookup for \<open>ob\<close> and then a second lookup that is keyed by the object
  id and sent only when the first has found a record.
\<close>

definition chained_lookups ::
  "connection \<Rightarrow> string \<Rightarrow> (jsval \<Rightarrow> request) \<Rightarrow> error \<Rightarrow> (jsval \<Rightarrow> sf_record \<Rightarrow> string)
     \<Rightarrow> string io" where
  "chained_lookups c ob q missing url =
     (case respond c (object_query ob) of
        Inl e \<Rightarrow> ([Sent (object_query ob)], Inl e)
      | Inr objects \<Rightarrow>
          (case objects of
             [] \<Rightarrow> ([Sent (object_query ob)], Inl (Error (''Object not found for '' @ ob)))
           | x # xs \<Rightarrow>
               ([Sent (object_query ob), Sent (q (x ''Id''))],
                case respond c (q (x ''Id'')) of
                  Inl e \<Rightarrow> Inl e
                | Inr records \<Rightarrow>
                    (case records of
                       [] \<Rightarrow> Inl missing
                     | y # ys \<Rightarrow> Inr (url (x ''Id'') y)))))"

text \<open>The resolvers that make one lookup, by the API name, and build the URL from its
  first record.\<close>

definition simple :: "resolver set" where
  "simple = {Flow, ValidationRule, FlexiPage, Profile, PermissionSet, PermissionSetGroup,
      ApexClass, ApexTrigger, GlobalValueSet, ApprovalProcess}"

subsection \<open>Example collaborators\<close>

text \<open>A record with the given id, an org that knows no record at all, a parsed path
  with the given directory and base name, and a Unix runtime whose commands succeed.\<close>

definition record_with_id :: "string \<Rightarrow> sf_record" where
  "record_with_id i = (\<lambda>f. if f = ''Id'' then Some i else None)"

definition empty_org :: connection where
  "empty_org = \<lparr> instanceUrl = ''https://org.example'', respond = (\<lambda>r. Inr []),
                 second_rejects_first = False \<rparr>"

definition path_of :: "string \<Rightarrow> string \<Rightarrow> parsed_path" where
  "path_of d b = \<lparr> root = [], dir = d, base = b, ext = [], name = [] \<rparr>"

definition unix :: runtime where
  "unix = \<lparr> platform = ''linux'', path_sep = ''/'',
            path_parse =
              (\<lambda>s. path_of (rev (drop 1 (dropWhile (\<lambda>c. c \<noteq> CHR ''/'') (rev s))))
                             (rev (takeWhile (\<lambda>c. c \<noteq> CHR ''/'') (rev s)))),
            decodeURIComponent = Some, exec = (\<lambda>cmd. None) \<rparr>"

text \<open>
  An org with the object \<^verbatim>\<open>Account\<close>, its custom field \<^verbatim>\<open>MyField\<close>, its layout
  \<^verbatim>\<open>Account Layout\<close> and two flow definitions that both match \<^verbatim>\<open>MyFlow\<close>.
\<close>

definition demo_org :: connection where
  "demo_org =
     \<lparr> instanceUrl = ''https://org.example'',
       respond =
         (\<lambda>r. if r = ToolingFind ''CustomObject'' [(''DeveloperName'', Some ''Account'')]
              then Inr [record_with_id ''01I001'']
              else if r = ToolingFind ''CustomField''
                            [(''DeveloperName'', Some ''MyField''), (''TableEnumOrId'', Some ''01I001'')]
              then Inr [record_with_id ''00N002'']
              else if r = ToolingFind ''Layout'' [(''Name'', Some ''Account Layout'')]
              then Inr [record_with_id ''00h003'']
              else if r = ToolingFind ''FlowDefinition'' [(''DeveloperName'', Some ''MyFlow'')]
              then Inr [record_with_id ''300004'', record_with_id ''300005'']
              else Inr []),
       second_rejects_first = False \<rparr>"

text \<open>Files of a project, as the constructor of \<^verbatim>\<open>Metadata\<close> sees them.\<close>

definition owner_field :: metadata where
  "owner_field = new_Metadata Field empty_org ''field-meta.xml''
     (path_of ''force-app/main/default/objects/Account/fields'' ''OwnerId.field-meta.xml'')"

definition id_field :: metadata where
  "id_field = new_Metadata Field empty_org ''field-meta.xml''
     (path_of ''force-app/main/default/objects/Account/fields'' ''Id.field-meta.xml'')"



definition undotted_approval :: metadata where
  "undotted_approval = new_Metadata ApprovalProcess demo_org ''approvalProcess-meta.xml''
     (path_of ''force-app/main/default/approvalProcesses'' ''Discount.approvalProcess-meta.xml'')"

definition undotted_action :: metadata where
  "undotted_action = new_Metadata QuickAction demo_org ''quickAction-meta.xml''
     (path_of ''force-app/main/default/quickActions'' ''Account.quickAction-meta.xml'')"



definition business_record_type :: metadata where
  "business_record_type = new_Metadata RecordType empty_org ''recordType-meta.xml''
     (path_of ''recordTypes'' ''Business.recordType-meta.xml'')"

definition my_flow :: "connection \<Rightarrow> metadata" where
  "my_flow c = new_Metadata Flow c ''flow-meta.xml''
     (path_of ''force-app/main/default/flows'' ''MyFlow.flow-meta.xml'')"

section \<open>Splitting\<close>

lemma split_from_nonempty: "split_from sep cur s \<noteq> []"
  by (induction sep cur s rule: split_from.induct) auto

lemma js_split_nonempty: "sep \<noteq> [] \<Longrightarrow> js_split s sep \<noteq> []"
  by (simp add: js_split_def split_from_nonempty)

subsection \<open>A separator of one character\<close>

lemma split_char_append:
  "split_from [c] cur (x @ c # y) = split_from [c] cur x @ split_from [c] [] y"
  by (induction x arbitrary: cur) auto

lemma split_char_free: "c \<notin> set x \<Longrightarrow> split_from [c] cur x = [cur @ x]"
  by (induction x arbitrary: cur) auto

lemma js_split_char_append:
  "js_split (x @ c # y) [c] = js_split x [c] @ js_split y [c]"
  by (simp add: js_split_def split_char_append)

lemma js_split_char_free: "c \<notin> set x \<Longrightarrow> js_split x [c] = [x]"
  by (simp add: js_split_def split_char_free)

subsection \<open>Any separator\<close>

lemma split_from_skip:
  "sep \<noteq> [] \<Longrightarrow> no_sep_in sep a t \<Longrightarrow>
   split_from sep cur (a @ t) = split_from sep (cur @ a) t"
  by (induction a arbitrary: cur) auto

lemma split_from_sep:
  "sep \<noteq> [] \<Longrightarrow> split_from sep cur (sep @ rest) = cur # split_from sep [] rest"
  by (cases sep) auto

lemma prefix_short:
  "length sep \<le> length t \<Longrightarrow> prefix sep (t @ r) = prefix sep t"
proof (induction sep arbitrary: t)
  case Nil
  show ?case by simp
next
  case (Cons x xs)
  then obtain y ys where t: "t = y # ys" by (cases t) auto
  with Cons.prems have "length xs \<le> length ys" by simp
  from Cons.IH[OF this] show ?case by (simp add: t)
qed

lemma no_sep_in_extend:
  "length sep \<le> length t \<Longrightarrow> no_sep_in sep a (t @ r) = no_sep_in sep a t"
proof (induction a)
  case Nil
  show ?case by simp
next
  case (Cons c cs)
  have "prefix sep ((c # cs @ t) @ r) = prefix sep (c # cs @ t)"
    using Cons.prems by (intro prefix_short) simp
  with Cons show ?case by simp
qed

lemma js_split_segment:
  assumes "sep \<noteq> []" "no_sep_in sep a sep"
  shows "js_split (a @ sep @ rest) sep = a # js_split rest sep"
proof -
  have "no_sep_in sep a (sep @ rest)"
    using assms(2) by (simp add: no_sep_in_extend)
  then show ?thesis
    using assms(1) by (simp add: js_split_def split_from_skip split_from_sep)
qed

lemma js_split_last:
  assumes "sep \<noteq> []" "no_sep_in sep a []"
  shows "js_split a sep = [a]"
  using assms split_from_skip[of sep a "[]" "[]"] by (simp add: js_split_def)

text \<open>Every string either holds no separator or begins with a whole segment.\<close>

lemma first_segment_cases:
  "sep \<noteq> [] \<Longrightarrow> no_sep_in sep s [] \<or> (\<exists>a rest. s = a @ sep @ rest \<and> no_sep_in sep a sep)"
proof (induction s)
  case Nil
  show ?case by simp
next
  case (Cons c cs)
  show ?case
  proof (cases "prefix sep (c # cs)")
    case True
    then obtain r where "c # cs = sep @ r" by (auto simp: prefix_def)
    then have "c # cs = [] @ sep @ r \<and> no_sep_in sep [] sep" by simp
    then show ?thesis by blast
  next
    case False
    from Cons.IH[OF Cons.prems] show ?thesis
    proof
      assume "no_sep_in sep cs []"
      with False show ?thesis by simp
    next
      assume "\<exists>a rest. cs = a @ sep @ rest \<and> no_sep_in sep a sep"
      then obtain a rest where ar: "cs = a @ sep @ rest" "no_sep_in sep a sep" by blast
      have "prefix sep (c # a @ sep) = prefix sep ((c # a @ sep) @ rest)"
        by (rule prefix_short[symmetric]) simp
      moreover have "\<not> prefix sep ((c # a @ sep) @ rest)"
        using False unfolding ar(1) by simp
      ultimately have np: "\<not> prefix sep (c # a @ sep)" by blast
      have "c # cs = (c # a) @ sep @ rest" unfolding ar(1) by simp
      moreover have "no_sep_in sep (c # a) sep" using np ar(2) by simp
      ultimately have "c # cs = (c # a) @ sep @ rest \<and> no_sep_in sep (c # a) sep" by blast
      then show ?thesis by blast
    qed
  qed
qed

section \<open>Naming conventions\<close>

lemma developer_name_no_separator:
  "no_sep_in ''__'' s [] \<Longrightarrow> getObjectFieldDeveloperName s = Some s"
  by (simp add: getObjectFieldDeveloperName_def js_split_last js_index_def)

lemma developer_name_two_parts:
  "no_sep_in ''__'' a ''__'' \<Longrightarrow> no_sep_in ''__'' b [] \<Longrightarrow>
   getObjectFieldDeveloperName (a @ ''__'' @ b) = Some a"
  using js_split_segment[of "''__''" a b] js_split_last[of "''__''" b]
  by (simp add: getObjectFieldDeveloperName_def js_index_def)

lemma developer_name_more_parts:
  assumes a: "no_sep_in ''__'' a ''__''" and b: "no_sep_in ''__'' b ''__''"
  shows "getObjectFieldDeveloperName (a @ ''__'' @ b @ ''__'' @ rest) = Some b"
proof -
  obtain q qs where q: "js_split rest ''__'' = q # qs"
    using js_split_nonempty[of "''__''" rest] by (cases "js_split rest ''__''") auto
  have "js_split (a @ ''__'' @ b @ ''__'' @ rest) ''__'' = a # b # q # qs"
    using js_split_segment[of "''__''" a "b @ ''__'' @ rest"]
      js_split_segment[of "''__''" b rest] a b q
    by simp
  then show ?thesis by (simp add: getObjectFieldDeveloperName_def js_index_def)
qed

lemma developer_name_defined: "\<exists>d. getObjectFieldDeveloperName s = Some d"
proof -
  obtain q qs where "js_split s ''__'' = q # qs"
    using js_split_nonempty[of "''__''" s] by (cases "js_split s ''__''") auto
  then show ?thesis
    by (cases qs) (auto simp: getObjectFieldDeveloperName_def js_index_def Let_def)
qed

text \<open>
  C6: \<^verbatim>\<open>getObjectFieldDeveloperName\<close> splits its argument on the double underscore. A
  name without the separator is one part and is returned whole; of two parts
  \<open>a__b\<close> the first is returned; of more than two parts \<open>a__b__\<dots>\<close> the second, the
  middle one of a namespaced field name. \<^verbatim>\<open>Namespace__Field__c\<close> and
  \<^verbatim>\<open>Field__c\<close> both give \<^verbatim>\<open>Field\<close>.
\<close>

theorem getObjectFieldDeveloperName_segments:
  "(no_sep_in ''__'' s [] \<longrightarrow> getObjectFieldDeveloperName s = Some s) \<and>
   (no_sep_in ''__'' a ''__'' \<and> no_sep_in ''__'' b [] \<longrightarrow>
      getObjectFieldDeveloperName (a @ ''__'' @ b) = Some a) \<and>
   (no_sep_in ''__'' a ''__'' \<and> no_sep_in ''__'' b ''__'' \<longrightarrow>
      getObjectFieldDeveloperName (a @ ''__'' @ b @ ''__'' @ rest) = Some b) \<and>
   getObjectFieldDeveloperName ''Namespace__Field__c'' = Some ''Field'' \<and>
   getObjectFieldDeveloperName ''Field__c'' = Some ''Field''"
proof -
  have "getObjectFieldDeveloperName ''Namespace__Field__c'' = Some ''Field''"
    by code_simp
  moreover have "getObjectFieldDeveloperName ''Field__c'' = Some ''Field''"
    by code_simp
  ultimately show ?thesis
    using developer_name_no_separator[of s] developer_name_two_parts[of a b]
      developer_name_more_parts[of a b rest]
    by blast
qed

theorem getObjectFieldDeveloperName_segments_witness:
  "no_sep_in ''__'' ''Plain'' [] \<and> getObjectFieldDeveloperName ''Plain'' = Some ''Plain'' \<and>
   no_sep_in ''__'' ''My_Field'' ''__'' \<and> no_sep_in ''__'' ''c'' [] \<and>
   getObjectFieldDeveloperName ''My_Field__c'' = Some ''My_Field'' \<and>
   no_sep_in ''__'' ''ns'' ''__'' \<and> no_sep_in ''__'' ''Amount'' ''__'' \<and>
   getObjectFieldDeveloperName ''ns__Amount__c'' = Some ''Amount''"
  using getObjectFieldDeveloperName_segments[of "''Plain''" "''My_Field''" "''c''"]
    getObjectFieldDeveloperName_segments[of "[]" "''ns''" "''Amount''" "''c''"]
  by simp

section \<open>Path classification\<close>

lemma getExtension_one:
  assumes "CHR ''.'' \<notin> set b"
  shows "getExtension b = Some b"
  using assms by (simp add: getExtension_def js_split_char_free js_index_def)

lemma getExtension_two:
  assumes "CHR ''.'' \<notin> set a" "CHR ''.'' \<notin> set b"
  shows "getExtension (a @ ''.'' @ b) = Some b"
  using assms by (simp add: getExtension_def js_split_char_append js_split_char_free js_index_def)

lemma getExtension_more:
  assumes "CHR ''.'' \<notin> set y" "CHR ''.'' \<notin> set z"
  shows "getExtension (x @ ''.'' @ y @ ''.'' @ z) = Some (y @ ''.'' @ z)"
proof -
  obtain ps where ps: "js_split x ''.'' = ps" "ps \<noteq> []"
    using js_split_nonempty[of "''.''" x] by auto
  have parts: "js_split (x @ ''.'' @ y @ ''.'' @ z) ''.'' = ps @ [y, z]"
    using assms ps by (simp add: js_split_char_append js_split_char_free)
  have len: "length ps > 0" using ps by simp
  show ?thesis
    unfolding getExtension_def parts Let_def using len
    by (simp add: js_index_def js_str_def nth_append nat_diff_distrib nat_add_distrib)
qed

lemma getExtension_defined: "\<exists>e. getExtension b = Some e"
proof -
  have "js_split b ''.'' \<noteq> []" by (simp add: js_split_nonempty)
  then show ?thesis by (auto simp: getExtension_def js_index_def Let_def)
qed

lemma api_name_strip:
  "metadataApiName (new_Metadata k c e (p\<lparr>base := x @ ''.'' @ e\<rparr>)) = x"
  by (simp add: new_Metadata_def substring0_def)

lemma api_name_whole:
  "metadataApiName (new_Metadata k c b (p\<lparr>base := b\<rparr>)) = []"
  by (simp add: new_Metadata_def substring0_def)

text \<open>
  C3 (as amended): the token is the last dot-segment of the base name when it has one
  or two segments and the last two joined by a dot when it has more; the API name is
  the base name without the token and its separating dot (empty when the base name
  holds no dot). \<^verbatim>\<open>Account.field-meta.xml\<close> gives the token \<^verbatim>\<open>field-meta.xml\<close> and
  the API name \<^verbatim>\<open>Account\<close>; \<^verbatim>\<open>MyClass.cls\<close> gives \<^verbatim>\<open>cls\<close> and \<^verbatim>\<open>MyClass\<close>.
\<close>

theorem path_classification:
  "(CHR ''.'' \<notin> set b \<longrightarrow>
      getExtension b = Some b \<and>
      metadataApiName (new_Metadata k c b (p\<lparr>base := b\<rparr>)) = []) \<and>
   (CHR ''.'' \<notin> set a \<and> CHR ''.'' \<notin> set b \<longrightarrow>
      getExtension (a @ ''.'' @ b) = Some b \<and>
      metadataApiName (new_Metadata k c b (p\<lparr>base := a @ ''.'' @ b\<rparr>)) = a) \<and>
   (CHR ''.'' \<notin> set y \<and> CHR ''.'' \<notin> set z \<longrightarrow>
      getExtension (x @ ''.'' @ y @ ''.'' @ z) = Some (y @ ''.'' @ z) \<and>
      metadataApiName (new_Metadata k c (y @ ''.'' @ z) (p\<lparr>base := x @ ''.'' @ y @ ''.'' @ z\<rparr>)) = x) \<and>
   getExtension ''Account.field-meta.xml'' = Some ''field-meta.xml'' \<and>
   metadataApiName (new_Metadata k c ''field-meta.xml'' (p\<lparr>base := ''Account.field-meta.xml''\<rparr>))
     = ''Account'' \<and>
   getExtension ''MyClass.cls'' = Some ''cls'' \<and>
   metadataApiName (new_Metadata k c ''cls'' (p\<lparr>base := ''MyClass.cls''\<rparr>)) = ''MyClass''"
proof -
  have e1: "getExtension ''Account.field-meta.xml'' = Some ''field-meta.xml''"
    using getExtension_more[of "''field-meta''" "''xml''" "''Account''"] by simp
  have e2: "getExtension ''MyClass.cls'' = Some ''cls''"
    using getExtension_two[of "''MyClass''" "''cls''"] by simp
  have n1: "metadataApiName (new_Metadata k c ''field-meta.xml'' (p\<lparr>base := ''Account.field-meta.xml''\<rparr>))
     = ''Account''"
    using api_name_strip[where e="''field-meta.xml''" and x="''Account''"] by simp
  have n2: "metadataApiName (new_Metadata k c ''cls'' (p\<lparr>base := ''MyClass.cls''\<rparr>)) = ''MyClass''"
    using api_name_strip[where e="''cls''" and x="''MyClass''"] by simp
  have n3: "metadataApiName (new_Metadata k c (y @ ''.'' @ z) (p\<lparr>base := x @ ''.'' @ y @ ''.'' @ z\<rparr>)) = x"
    using api_name_strip[where e="y @ ''.'' @ z" and x=x] by simp
  show ?thesis
    using e1 e2 n1 n2 n3 getExtension_one[of b] getExtension_two[of a b] getExtension_more[of y z x]
      api_name_strip[where e=b and x=a] api_name_whole
    by blast
qed

theorem path_classification_witness:
  "CHR ''.'' \<notin> set ''README'' \<and>
   getExtension ''README'' = Some ''README'' \<and>
   metadataApiName (new_Metadata ApexClass empty_org ''README'' (path_of ''docs'' ''README'')) = [] \<and>
   CHR ''.'' \<notin> set ''Handler'' \<and> CHR ''.'' \<notin> set ''trigger'' \<and>
   getExtension ''Handler.trigger'' = Some ''trigger'' \<and>
   metadataApiName (new_Metadata ApexClass empty_org ''trigger'' (path_of ''docs'' ''Handler.trigger''))
     = ''Handler'' \<and>
   CHR ''.'' \<notin> set ''flow-meta'' \<and> CHR ''.'' \<notin> set ''xml'' \<and>
   getExtension ''My.Flow.flow-meta.xml'' = Some ''flow-meta.xml'' \<and>
   metadataApiName (new_Metadata ApexClass empty_org ''flow-meta.xml''
     (path_of ''docs'' ''My.Flow.flow-meta.xml'')) = ''My.Flow''"
  using path_classification[where b="''README''" and k=ApexClass and c=empty_org
      and p="path_of ''docs'' []" and a="[]" and y="[]" and z="[]" and x="[]"]
    path_classification[where b="''trigger''" and k=ApexClass and c=empty_org
      and p="path_of ''docs'' []" and a="''Handler''" and y="''flow-meta''" and z="''xml''"
      and x="''My.Flow''"]
  by (simp add: path_of_def)

text \<open>
  C3 as stated fails on its own example: the API name of
  \<^verbatim>\<open>Account.field-meta.xml\<close> is not \<^verbatim>\<open>Account.field\<close>.
\<close>

theorem path_classification_counterexample:
  "getExtension ''Account.field-meta.xml'' = Some ''field-meta.xml'' \<and>
   metadataApiName (new_Metadata Field empty_org ''field-meta.xml''
     (path_of ''objects/Account/fields'' ''Account.field-meta.xml'')) \<noteq> ''Account.field''"
proof -
  have "getExtension ''Account.field-meta.xml'' = Some ''field-meta.xml''"
    using getExtension_more[of "''field-meta''" "''xml''" "''Account''"] by simp
  moreover have "metadataApiName (new_Metadata Field empty_org ''field-meta.xml''
     (path_of ''objects/Account/fields'' ''Account.field-meta.xml'')) = ''Account''"
    by (simp add: new_Metadata_def substring0_def path_of_def)
  ultimately show ?thesis by simp
qed


section \<open>Dispatch\<close>

lemma create_registered:
  "\<forall>(tok, k) \<in> set registered. create c (Some tok) p = Inr (new_Metadata k c tok p)"
  by (simp add: registered_def create_def)

lemma create_unsupported:
  "e \<noteq> [] \<Longrightarrow> e \<notin> fst ` set registered \<Longrightarrow>
   create c (Some e) p = Inl (Error ''Unsupported metadata type'')"
  by (simp add: registered_def create_def)

lemma create_falsy:
  "create c None p = Inl (Error ''Invalid parameters'')"
  "create c (Some []) p = Inl (Error ''Invalid parameters'')"
  by (simp_all add: create_def)

lemma registered_shape:
  "length registered = 15 \<and> distinct (map fst registered) \<and> distinct (map snd registered)"
  by (simp add: registered_def)

text \<open>
  C2 (as amended): the table has 15 tokens, all different, for 15 different
  resolvers, and \<^verbatim>\<open>Factory.create\<close> maps each token to its resolver. A token that is
  not in the table never selects a resolver: the empty token fails with
  \<^verbatim>\<open>Invalid parameters\<close>, every other one with \<^verbatim>\<open>Unsupported metadata type\<close>.
\<close>

theorem create_closed_dispatch:
  "length registered = 15 \<and> distinct (map fst registered) \<and> distinct (map snd registered) \<and>
   (\<forall>(tok, k) \<in> set registered. create c (Some tok) p = Inr (new_Metadata k c tok p)) \<and>
   (e \<notin> fst ` set registered \<longrightarrow>
      create c (Some e) p =
        Inl (Error (if e = [] then ''Invalid parameters'' else ''Unsupported metadata type'')))"
  using registered_shape create_registered[of c p] create_unsupported[of e c p] create_falsy(2)[of c p]
  by auto

theorem create_closed_dispatch_witness:
  "(''cls'', ApexClass) \<in> set registered \<and>
   create empty_org (Some ''cls'') (path_of ''classes'' ''MyClass.cls'')
     = Inr (new_Metadata ApexClass empty_org ''cls'' (path_of ''classes'' ''MyClass.cls'')) \<and>
   ''foo.bar'' \<notin> fst ` set registered \<and>
   create empty_org (Some ''foo.bar'') (path_of ''classes'' ''MyClass.cls'')
     = Inl (Error ''Unsupported metadata type'')"
proof -
  have r: "(''cls'', ApexClass) \<in> set registered" and n: "''foo.bar'' \<notin> fst ` set registered"
    by (simp_all add: registered_def)
  from create_closed_dispatch[of empty_org "path_of ''classes'' ''MyClass.cls''" "''foo.bar''"] r n
  show ?thesis by auto
qed

text \<open>
  C2 as stated fails for the empty token, which \<^verbatim>\<open>getExtension\<close> derives from a file
  name that ends in a dot: it is not in the table, and the error is not
  \<^verbatim>\<open>Unsupported metadata type\<close>.
\<close>

theorem create_closed_dispatch_counterexample:
  "[] \<notin> fst ` set registered \<and> getExtension ''notes.'' = Some [] \<and>
   create empty_org (Some []) (path_of ''docs'' ''notes.'')
     \<noteq> Inl (Error ''Unsupported metadata type'')"
  by (simp add: registered_def create_def getExtension_def js_split_def js_index_def)

section \<open>Fields\<close>

lemma object_folder_of_dir:
  assumes sep: "path_sep rt = [c]"
    and d: "dir (pathParsed m) = pre @ folder @ [c] @ leaf"
    and pre: "pre = [] \<or> last pre = c"
    and free: "c \<notin> set folder" "c \<notin> set leaf"
  shows "object_folder rt m = Some folder"
proof -
  have "\<exists>ps. js_split (pre @ folder @ [c] @ leaf) [c] = ps @ [folder, leaf]"
  proof (cases "pre = []")
    case True
    then show ?thesis using free by (simp add: js_split_char_append js_split_char_free)
  next
    case False
    with pre obtain pre' where "pre = pre' @ [c]" by (metis append_butlast_last_id)
    then show ?thesis
      using free js_split_char_append[of pre' c "folder @ c # leaf"]
      by (simp add: js_split_char_append js_split_char_free)
  qed
  then obtain ps where "js_split (dir (pathParsed m)) (path_sep rt) = ps @ [folder, leaf]"
    using sep d by auto
  then show ?thesis
    by (simp add: object_folder_def js_index_def nth_append nat_diff_distrib nat_add_distrib)
qed

lemma object_folder_single:
  assumes "path_sep rt = [c]" "c \<notin> set (dir (pathParsed m))"
  shows "object_folder rt m = None"
  using assms by (simp add: object_folder_def js_split_char_free js_index_def)

lemma endsWith_append: "endsWith (t @ s) s"
  by (simp add: endsWith_def suffix_def)

lemma endsWith_iff: "endsWith s t \<longleftrightarrow> (\<exists>u. s = u @ t)"
  by (simp add: endsWith_def suffix_def)

lemma substring0_length_minus:
  "substring0 s (int (length s) - int k) = take (length s - k) s"
proof -
  have "nat (min (max (int (length s) - int k) 0) (int (length s))) = length s - k"
    by arith
  then show ?thesis by (simp add: substring0_def)
qed

lemma substring0_strip: "substring0 (t @ u) (int (length (t @ u)) - int (length u)) = t"
  using substring0_length_minus[of "t @ u" "length u"] by simp

lemma Field_standard:
  assumes "kind m = Field" "isStandardField (metadataApiName m)"
  shows "getUrl rt m =
    ([], Inr (''lightning/setup/ObjectManager/'' @ js_str (object_folder rt m) @
              ''/FieldsAndRelationships/'' @
              (if endsWith (metadataApiName m) ''Id''
               then take (length (metadataApiName m) - 2) (metadataApiName m)
               else metadataApiName m) @ ''/view''))"
  using assms substring0_length_minus[of "metadataApiName m" 2]
  by (simp add: getUrl_def Field_getUrl_def object_folder_def io_return_def Let_def)

lemma standard_Id: "isStandardField (t @ ''Id'')"
  by (simp add: isStandardField_def endsWith_def suffix_def)

lemma Field_standard_trimmed:
  assumes "kind m = Field" "metadataApiName m = t @ ''Id''"
  shows "getUrl rt m =
    ([], Inr (''lightning/setup/ObjectManager/'' @ js_str (object_folder rt m) @
              ''/FieldsAndRelationships/'' @ t @ ''/view''))"
  using assms Field_standard[of m rt] standard_Id[of t] endsWith_append[of t "''Id''"]
  by simp


section \<open>Resolvers\<close>

lemma getObjectId_Some:
  "getObjectId c (Some n) =
     ([Sent (object_query n)],
      case respond c (object_query n) of
        Inl e \<Rightarrow> Inl e
      | Inr records \<Rightarrow>
          (case records of
             [] \<Rightarrow> Inl (Error (''Object not found for '' @ n))
           | r # rs \<Rightarrow> Inr (r ''Id'')))"
  by (simp add: getObjectId_def object_query_def tooling_find_def io_bind_def io_throw_def
      io_return_def js_str_def split: sum.splits list.splits)

lemma getObjectId_None: "getObjectId c None = ([], Inl TypeError)"
  by (simp add: getObjectId_def io_throw_def)

lemma getObjectId_cases:
  "getObjectId c v = (case v of None \<Rightarrow> ([], Inl TypeError) | Some n \<Rightarrow>
     ([Sent (object_query n)],
      case respond c (object_query n) of
        Inl e \<Rightarrow> Inl e
      | Inr records \<Rightarrow>
          (case records of
             [] \<Rightarrow> Inl (Error (''Object not found for '' @ n))
           | r # rs \<Rightarrow> Inr (r ''Id''))))"
  by (cases v) (simp_all add: getObjectId_Some getObjectId_None)

lemmas io_defs = io_bind_def io_throw_def io_return_def tooling_find_def conn_query_def
  promise_all2_def

lemmas resolver_defs = Flow_getUrl_def Field_getUrl_def ValidationRule_getUrl_def
  FlexiPage_getUrl_def Profile_getUrl_def PermissionSet_getUrl_def PermissionSetGroup_getUrl_def
  ApexClass_getUrl_def ApexTrigger_getUrl_def RecordType_getUrl_def PageLayout_getUrl_def
  SObject_getUrl_def GlobalValueSet_getUrl_def QuickAction_getUrl_def ApprovalProcess_getUrl_def

lemmas log_defs = unmatched_def queries_def object_folder_def


lemma js_split_first_defined: "sep \<noteq> [] \<Longrightarrow> js_index (js_split s sep) 0 \<noteq> None"
  using js_split_nonempty[of sep s] by (simp add: js_index_def)

lemma first_defined [simp]:
  "js_index (js_split s ''.'') 0 \<noteq> None" "js_index (js_split s ''-'') 0 \<noteq> None"
  by (simp_all add: js_split_first_defined)

lemma respond_first_only:
  "respond (first_only c) q = (case respond c q of Inl e \<Rightarrow> Inl e | Inr records \<Rightarrow> Inr (take 1 records))"
  "second_rejects_first (first_only c) = second_rejects_first c"
  by (simp_all add: first_only_def)

lemma tooling_find_first_only:
  "tooling_find (first_only c) s cs = truncated (tooling_find c s cs)"
  by (simp add: tooling_find_def truncated_def respond_first_only)

lemma conn_query_first_only:
  "conn_query (first_only c) q = truncated (conn_query c q)"
  by (simp add: conn_query_def truncated_def respond_first_only)

lemma io_bind_truncated:
  assumes "\<And>x xs. f [x] = f (x # xs)"
  shows "io_bind (truncated p) f = io_bind p f"
proof -
  obtain l r where p: "p = (l, r)" by (cases p)
  show ?thesis
  proof (cases r)
    case (Inl e)
    then show ?thesis by (simp add: p io_bind_def truncated_def)
  next
    case (Inr records)
    show ?thesis
    proof (cases records)
      case Nil
      with Inr show ?thesis by (simp add: p io_bind_def truncated_def)
    next
      case (Cons x xs)
      with Inr assms[of x xs] show ?thesis by (simp add: p io_bind_def truncated_def)
    qed
  qed
qed

lemma promise_all2_truncated:
  assumes "\<And>a x xs. f (a, [x]) = f (a, x # xs)"
  shows "io_bind (promise_all2 sf p (truncated q)) f = io_bind (promise_all2 sf p q) f"
proof -
  obtain l r where q: "q = (l, r)" by (cases q)
  obtain l' r' where p: "p = (l', r')" by (cases p)
  show ?thesis
  proof (cases r)
    case (Inl e)
    then show ?thesis by (simp add: q truncated_def)
  next
    case (Inr records)
    show ?thesis
    proof (cases records)
      case Nil
      with Inr show ?thesis by (simp add: q truncated_def)
    next
      case (Cons x xs)
      show ?thesis
      proof (cases r')
        case (Inl e)
        with Inr show ?thesis by (simp add: p q io_bind_def truncated_def promise_all2_def)
      next
        case (Inr a)
        with \<open>r = Inr records\<close> Cons assms[of a x xs] show ?thesis
          by (simp add: p q io_bind_def truncated_def promise_all2_def)
      qed
    qed
  qed
qed

lemma getObjectId_first_only: "getObjectId (first_only c) v = getObjectId c v"
  by (cases v) (simp_all add: getObjectId_def tooling_find_first_only io_bind_truncated)

lemmas first_only_simps = tooling_find_first_only conn_query_first_only getObjectId_first_only
  io_bind_truncated promise_all2_truncated respond_first_only(2)

lemma first_Field:
  assumes "kind m = Field"
  shows "getUrl rt (m\<lparr>conn := first_only (conn m)\<rparr>) = getUrl rt m"
  using assms
  by (simp add: getUrl_def Field_getUrl_def first_only_simps Let_def cong: if_cong option.case_cong)

lemma first_RecordType:
  assumes "kind m = RecordType"
  shows "getUrl rt (m\<lparr>conn := first_only (conn m)\<rparr>) = getUrl rt m"
  using assms
  by (simp add: getUrl_def RecordType_getUrl_def first_only_simps Let_def cong: if_cong option.case_cong)

lemma first_QuickAction:
  assumes "kind m = QuickAction"
  shows "getUrl rt (m\<lparr>conn := first_only (conn m)\<rparr>) = getUrl rt m"
  using assms
  by (simp add: getUrl_def QuickAction_getUrl_def first_only_simps Let_def cong: if_cong option.case_cong)

lemma first_PageLayout:
  assumes "kind m = PageLayout"
  shows "getUrl rt (m\<lparr>conn := first_only (conn m)\<rparr>) = getUrl rt m"
  using assms
  by (simp add: getUrl_def PageLayout_getUrl_def first_only_simps Let_def cong: if_cong option.case_cong)

lemma first_SObject:
  assumes "kind m = SObject"
  shows "getUrl rt (m\<lparr>conn := first_only (conn m)\<rparr>) = getUrl rt m"
  using assms
  by (simp add: getUrl_def SObject_getUrl_def first_only_simps Let_def cong: if_cong option.case_cong)

lemma first_simple:
  assumes "kind m \<in> simple"
  shows "getUrl rt (m\<lparr>conn := first_only (conn m)\<rparr>) = getUrl rt m"
  using assms
  by (auto simp: simple_def getUrl_def resolver_defs first_only_simps cong: if_cong)

lemma failed_simple:
  assumes "kind m \<in> simple" and "unmatched (conn m) (fst (getUrl rt m))"
  shows "\<exists>e. snd (getUrl rt m) = Inl e"
  using assms
  by (auto simp: simple_def getUrl_def resolver_defs io_defs log_defs split: sum.splits)

lemma sends_simple:
  assumes "kind m \<in> simple"
  shows "commands (fst (getUrl rt m)) = []"
  using assms
  by (auto simp: simple_def getUrl_def resolver_defs io_defs commands_def split: sum.splits if_splits)

lemma failed_SObject:
  assumes "kind m = SObject" and "unmatched (conn m) (fst (getUrl rt m))"
  shows "\<exists>e. snd (getUrl rt m) = Inl e"
  using assms
  by (auto simp: getUrl_def resolver_defs io_defs log_defs getObjectId_cases Let_def
      split: sum.splits list.splits option.splits if_splits)

lemma sends_SObject:
  assumes "kind m = SObject"
  shows "commands (fst (getUrl rt m)) = []"
  using assms
  by (auto simp: getUrl_def resolver_defs io_defs commands_def getObjectId_cases Let_def
      split: sum.splits list.splits option.splits if_splits)

lemma failed_QuickAction:
  assumes "kind m = QuickAction" and "unmatched (conn m) (fst (getUrl rt m))"
  shows "\<exists>e. snd (getUrl rt m) = Inl e"
  using assms
  by (auto simp: getUrl_def resolver_defs io_defs log_defs getObjectId_cases Let_def
      split: sum.splits list.splits option.splits if_splits)

lemma sends_QuickAction:
  assumes "kind m = QuickAction"
  shows "commands (fst (getUrl rt m)) = []"
  using assms
  by (auto simp: getUrl_def resolver_defs io_defs commands_def getObjectId_cases Let_def
      split: sum.splits list.splits option.splits if_splits)

lemma failed_PageLayout:
  assumes "kind m = PageLayout" and "unmatched (conn m) (fst (getUrl rt m))"
  shows "\<exists>e. snd (getUrl rt m) = Inl e"
  using assms
  by (auto simp: getUrl_def resolver_defs io_defs log_defs getObjectId_cases Let_def
      split: sum.splits list.splits option.splits if_splits)

lemma sends_PageLayout:
  assumes "kind m = PageLayout"
  shows "commands (fst (getUrl rt m)) = []"
  using assms
  by (auto simp: getUrl_def resolver_defs io_defs commands_def getObjectId_cases Let_def
      split: sum.splits list.splits option.splits if_splits)

lemma failed_RecordType:
  assumes "kind m = RecordType" and "unmatched (conn m) (fst (getUrl rt m))"
  shows "\<exists>e. snd (getUrl rt m) = Inl e"
  using assms
  by (auto simp: getUrl_def resolver_defs io_defs log_defs getObjectId_cases Let_def
      split: sum.splits list.splits option.splits if_splits)

lemma sends_RecordType:
  assumes "kind m = RecordType"
  shows "commands (fst (getUrl rt m)) = []"
  using assms
  by (auto simp: getUrl_def resolver_defs io_defs commands_def getObjectId_cases Let_def
      split: sum.splits list.splits option.splits if_splits)

lemma failed_Field:
  assumes "kind m = Field" and "unmatched (conn m) (fst (getUrl rt m))"
  shows "\<exists>e. snd (getUrl rt m) = Inl e"
  using assms
  by (auto simp: getUrl_def resolver_defs io_defs log_defs getObjectId_cases Let_def
      split: sum.splits list.splits option.splits if_splits)

lemma sends_Field:
  assumes "kind m = Field"
  shows "commands (fst (getUrl rt m)) = []"
  using assms
  by (auto simp: getUrl_def resolver_defs io_defs commands_def getObjectId_cases Let_def
      split: sum.splits list.splits option.splits if_splits)



section \<open>Standard fields\<close>

text \<open>
  C5: for a standard field, one whose API name does not end in \<^verbatim>\<open>__c\<close>,
  \<^verbatim>\<open>Field.getUrl\<close> sends no query. It returns
  \<^verbatim>\<open>lightning/setup/ObjectManager/{objectFolderName}/FieldsAndRelationships/{name}/view\<close>,
  where the name is the API name without a trailing \<^verbatim>\<open>Id\<close> and the folder name is the
  second-to-last segment of the directory.
\<close>

theorem Field_standard_no_query:
  "kind m = Field \<and> isStandardField (metadataApiName m) \<longrightarrow>
     fst (getUrl rt m) = [] \<and>
     (\<forall>t. metadataApiName m = t @ ''Id'' \<longrightarrow>
        snd (getUrl rt m) =
          Inr (''lightning/setup/ObjectManager/'' @ js_str (object_folder rt m) @
               ''/FieldsAndRelationships/'' @ t @ ''/view'')) \<and>
     (\<not> endsWith (metadataApiName m) ''Id'' \<longrightarrow>
        snd (getUrl rt m) =
          Inr (''lightning/setup/ObjectManager/'' @ js_str (object_folder rt m) @
               ''/FieldsAndRelationships/'' @ metadataApiName m @ ''/view'')) \<and>
     (path_sep rt = [c] \<and> dir (pathParsed m) = pre @ folder @ [c] @ leaf \<and>
      (pre = [] \<or> last pre = c) \<and> c \<notin> set folder \<and> c \<notin> set leaf \<longrightarrow>
        js_str (object_folder rt m) = folder)"
proof (intro impI, elim conjE)
  assume k: "kind m = Field" and std: "isStandardField (metadataApiName m)"
  have a: "fst (getUrl rt m) = []"
    using Field_standard[OF k std, of rt] by simp
  have b: "\<forall>t. metadataApiName m = t @ ''Id'' \<longrightarrow>
        snd (getUrl rt m) =
          Inr (''lightning/setup/ObjectManager/'' @ js_str (object_folder rt m) @
               ''/FieldsAndRelationships/'' @ t @ ''/view'')"
    using Field_standard_trimmed[OF k, of _ rt] by simp
  have c: "\<not> endsWith (metadataApiName m) ''Id'' \<longrightarrow>
        snd (getUrl rt m) =
          Inr (''lightning/setup/ObjectManager/'' @ js_str (object_folder rt m) @
               ''/FieldsAndRelationships/'' @ metadataApiName m @ ''/view'')"
    using Field_standard[OF k std, of rt] by simp
  have d: "path_sep rt = [c] \<and> dir (pathParsed m) = pre @ folder @ [c] @ leaf \<and>
      (pre = [] \<or> last pre = c) \<and> c \<notin> set folder \<and> c \<notin> set leaf \<longrightarrow>
        js_str (object_folder rt m) = folder"
    using object_folder_of_dir[of rt c m pre folder leaf] by (auto simp: js_str_def)
  from a b c d show "fst (getUrl rt m) = [] \<and>
     (\<forall>t. metadataApiName m = t @ ''Id'' \<longrightarrow>
        snd (getUrl rt m) =
          Inr (''lightning/setup/ObjectManager/'' @ js_str (object_folder rt m) @
               ''/FieldsAndRelationships/'' @ t @ ''/view'')) \<and>
     (\<not> endsWith (metadataApiName m) ''Id'' \<longrightarrow>
        snd (getUrl rt m) =
          Inr (''lightning/setup/ObjectManager/'' @ js_str (object_folder rt m) @
               ''/FieldsAndRelationships/'' @ metadataApiName m @ ''/view'')) \<and>
     (path_sep rt = [c] \<and> dir (pathParsed m) = pre @ folder @ [c] @ leaf \<and>
      (pre = [] \<or> last pre = c) \<and> c \<notin> set folder \<and> c \<notin> set leaf \<longrightarrow>
        js_str (object_folder rt m) = folder)"
    by blast
qed

lemma owner_field_simps:
  "kind owner_field = Field" "metadataApiName owner_field = ''Owner'' @ ''Id''"
  "dir (pathParsed owner_field) = ''force-app/main/default/objects/'' @ ''Account'' @ ''/'' @ ''fields''"
  "path_sep unix = ''/''"
  by (simp_all add: owner_field_def new_Metadata_def path_of_def substring0_def unix_def)

theorem Field_standard_no_query_witness:
  "kind owner_field = Field \<and> isStandardField (metadataApiName owner_field) \<and>
   getUrl unix owner_field =
     ([], Inr ''lightning/setup/ObjectManager/Account/FieldsAndRelationships/Owner/view'')"
proof -
  have std: "isStandardField (metadataApiName owner_field)"
    unfolding owner_field_simps by (rule standard_Id)
  have "fst (getUrl unix owner_field) = [] \<and>
       snd (getUrl unix owner_field) =
          Inr (''lightning/setup/ObjectManager/'' @ ''Account'' @
               ''/FieldsAndRelationships/'' @ ''Owner'' @ ''/view'')"
    using Field_standard_no_query[of owner_field unix "CHR ''/''"
        "''force-app/main/default/objects/''" "''Account''" "''fields''"]
      std owner_field_simps
    by simp
  then show ?thesis using std owner_field_simps(1) by (simp add: prod_eq_iff)
qed

lemma isStandardField_iff: "isStandardField s \<longleftrightarrow> \<not> (\<exists>u. s = u @ ''__c'')"
  by (simp add: isStandardField_def endsWith_iff)

text \<open>
  C9: for a standard field \<^verbatim>\<open>Field.getUrl\<close> always returns a URL, without any effect.
  Every API name that ends in \<^verbatim>\<open>Id\<close> loses these two characters, whatever kind of
  field it names; the field \<^verbatim>\<open>Id\<close> itself is trimmed to the empty string and the URL
  ends in \<^verbatim>\<open>/FieldsAndRelationships//view\<close>.
\<close>

theorem Field_standard_always_succeeds:
  "(kind m = Field \<and> isStandardField (metadataApiName m) \<longrightarrow>
      (\<exists>url. getUrl rt m = ([], Inr url))) \<and>
   (kind m = Field \<and> metadataApiName m = t @ ''Id'' \<longrightarrow>
      getUrl rt m =
        ([], Inr (''lightning/setup/ObjectManager/'' @ js_str (object_folder rt m) @
                  ''/FieldsAndRelationships/'' @ t @ ''/view''))) \<and>
   (kind m = Field \<and> metadataApiName m = ''Id'' \<longrightarrow>
      getUrl rt m =
        ([], Inr (''lightning/setup/ObjectManager/'' @ js_str (object_folder rt m) @
                  ''/FieldsAndRelationships//view'')))"
  using Field_standard[of m rt] Field_standard_trimmed[of m t rt] Field_standard_trimmed[of m "[]" rt]
  by auto

lemma id_field_simps:
  "kind id_field = Field" "metadataApiName id_field = ''Id''"
  "dir (pathParsed id_field) = ''force-app/main/default/objects/'' @ ''Account'' @ ''/'' @ ''fields''"
  by (simp_all add: id_field_def new_Metadata_def path_of_def substring0_def)

lemma unix_sep: "path_sep unix = ''/''"
  by (simp add: unix_def)

theorem Field_standard_always_succeeds_witness:
  "kind id_field = Field \<and> isStandardField (metadataApiName id_field) \<and>
   getUrl unix id_field =
     ([], Inr ''lightning/setup/ObjectManager/Account/FieldsAndRelationships//view'')"
proof -
  have std: "isStandardField (metadataApiName id_field)"
    using standard_Id[of "[]"] by (simp add: id_field_simps)
  have "object_folder unix id_field = Some ''Account''"
    using object_folder_of_dir[of unix "CHR ''/''" id_field "''force-app/main/default/objects/''"
        "''Account''" "''fields''"] id_field_simps unix_sep
    by simp
  then show ?thesis
    using Field_standard_always_succeeds[of id_field unix "[]"] std id_field_simps
    by (simp add: js_str_def)
qed

section \<open>Lookups by a part of the API name\<close>

lemma split_dot_free_index1: "CHR ''.'' \<notin> set s \<Longrightarrow> js_index (js_split s ''.'') 1 = None"
  by (simp add: js_split_char_free js_index_def)

lemma split_dot_free_index0: "CHR ''.'' \<notin> set s \<Longrightarrow> js_index (js_split s ''.'') 0 = Some s"
  by (simp add: js_split_char_free js_index_def)

lemma ApprovalProcess_no_dot:
  assumes "kind m = ApprovalProcess" "CHR ''.'' \<notin> set (metadataApiName m)"
  shows "getUrl rt m =
     ([Sent (Soql (''SELECT Id FROM ProcessDefinition WHERE DeveloperName = 'undefined' AND Type = 'Approval'' @ [CHR 0x27]))],
      case respond (conn m)
             (Soql (''SELECT Id FROM ProcessDefinition WHERE DeveloperName = 'undefined' AND Type = 'Approval'' @ [CHR 0x27])) of
        Inl e \<Rightarrow> Inl e
      | Inr records \<Rightarrow>
          (case records of
             [] \<Rightarrow> Inl (Error (''Approval process not found for '' @ metadataApiName m))
           | r # rs \<Rightarrow>
               Inr (''lightning/setup/ApprovalProcesses/page?address=%2F'' @ js_str (r ''Id''))))"
  using assms
  by (simp add: getUrl_def ApprovalProcess_getUrl_def split_dot_free_index1 js_str_def io_defs
      split: sum.splits list.splits)

lemma QuickAction_no_dot:
  assumes "kind m = QuickAction" "CHR ''.'' \<notin> set (metadataApiName m)"
  shows "fst (getUrl rt m) =
     [Sent (object_query (metadataApiName m)),
      Sent (ToolingFind ''QuickActionDefinition'' [(''DeveloperName'', None)])]"
   and "respond (conn m) (object_query (metadataApiName m)) = Inr (ob # obs) \<Longrightarrow>
        respond (conn m) (ToolingFind ''QuickActionDefinition'' [(''DeveloperName'', None)]) = Inr (r # rs) \<Longrightarrow>
        snd (getUrl rt m) =
          Inr (''lightning/setup/ObjectManager/'' @ js_str (ob ''Id'') @
               ''/ButtonsLinksActions/'' @ js_str (r ''Id'') @ ''/view'')"
   and "respond (conn m) (object_query (metadataApiName m)) = Inr (ob # obs) \<Longrightarrow>
        respond (conn m) (ToolingFind ''QuickActionDefinition'' [(''DeveloperName'', None)]) = Inr [] \<Longrightarrow>
        snd (getUrl rt m) = Inl (Error ''QuickAction not found for undefined'')"
proof -
  show "fst (getUrl rt m) =
     [Sent (object_query (metadataApiName m)),
      Sent (ToolingFind ''QuickActionDefinition'' [(''DeveloperName'', None)])]"
    using assms
    by (simp add: getUrl_def QuickAction_getUrl_def split_dot_free_index1 split_dot_free_index0
        getObjectId_Some io_defs Let_def split: sum.splits list.splits prod.splits)
  show "snd (getUrl rt m) =
          Inr (''lightning/setup/ObjectManager/'' @ js_str (ob ''Id'') @
               ''/ButtonsLinksActions/'' @ js_str (r ''Id'') @ ''/view'')"
    if "respond (conn m) (object_query (metadataApiName m)) = Inr (ob # obs)"
      and "respond (conn m) (ToolingFind ''QuickActionDefinition'' [(''DeveloperName'', None)]) = Inr (r # rs)"
    using assms that
    by (simp add: getUrl_def QuickAction_getUrl_def split_dot_free_index1 split_dot_free_index0
        getObjectId_Some io_defs Let_def)
  show "snd (getUrl rt m) = Inl (Error ''QuickAction not found for undefined'')"
    if "respond (conn m) (object_query (metadataApiName m)) = Inr (ob # obs)"
      and "respond (conn m) (ToolingFind ''QuickActionDefinition'' [(''DeveloperName'', None)]) = Inr []"
    using assms that
    by (simp add: getUrl_def QuickAction_getUrl_def split_dot_free_index1 split_dot_free_index0
        getObjectId_Some io_defs Let_def js_str_def)
qed

text \<open>
  C10: when the API name holds no dot, its second dot-segment is \<^verbatim>\<open>undefined\<close>, and
  neither resolver checks for it. \<^verbatim>\<open>ApprovalProcess\<close> sends its query with the text
  \<^verbatim>\<open>undefined\<close> as developer name, \<^verbatim>\<open>QuickAction\<close> sends the object lookup for the
  whole API name and the action lookup with an \<^verbatim>\<open>undefined\<close> developer name; what they
  return is decided by the answers alone: a URL from the first records, or the error of
  a lookup without a match.
\<close>

theorem undefined_developer_name:
  "CHR ''.'' \<notin> set (metadataApiName m) \<longrightarrow>
   (kind m = ApprovalProcess \<longrightarrow>
      fst (getUrl rt m) =
        [Sent (Soql (''SELECT Id FROM ProcessDefinition WHERE DeveloperName = 'undefined' AND Type = 'Approval'' @ [CHR 0x27]))] \<and>
      (\<forall>r rs. respond (conn m)
                 (Soql (''SELECT Id FROM ProcessDefinition WHERE DeveloperName = 'undefined' AND Type = 'Approval'' @ [CHR 0x27]))
                = Inr (r # rs) \<longrightarrow>
         snd (getUrl rt m) =
           Inr (''lightning/setup/ApprovalProcesses/page?address=%2F'' @ js_str (r ''Id''))) \<and>
      (respond (conn m)
         (Soql (''SELECT Id FROM ProcessDefinition WHERE DeveloperName = 'undefined' AND Type = 'Approval'' @ [CHR 0x27]))
        = Inr [] \<longrightarrow>
         snd (getUrl rt m) = Inl (Error (''Approval process not found for '' @ metadataApiName m)))) \<and>
   (kind m = QuickAction \<longrightarrow>
      fst (getUrl rt m) =
        [Sent (object_query (metadataApiName m)),
         Sent (ToolingFind ''QuickActionDefinition'' [(''DeveloperName'', None)])] \<and>
      (\<forall>ob obs r rs.
         respond (conn m) (object_query (metadataApiName m)) = Inr (ob # obs) \<and>
         respond (conn m) (ToolingFind ''QuickActionDefinition'' [(''DeveloperName'', None)])
           = Inr (r # rs) \<longrightarrow>
         snd (getUrl rt m) =
           Inr (''lightning/setup/ObjectManager/'' @ js_str (ob ''Id'') @
                ''/ButtonsLinksActions/'' @ js_str (r ''Id'') @ ''/view'')) \<and>
      (\<forall>ob obs.
         respond (conn m) (object_query (metadataApiName m)) = Inr (ob # obs) \<and>
         respond (conn m) (ToolingFind ''QuickActionDefinition'' [(''DeveloperName'', None)])
           = Inr [] \<longrightarrow>
         snd (getUrl rt m) = Inl (Error ''QuickAction not found for undefined'')))"
proof (intro impI conjI allI; (elim conjE)?)
  assume d: "CHR ''.'' \<notin> set (metadataApiName m)" and k: "kind m = ApprovalProcess"
  note run = ApprovalProcess_no_dot[OF k d, of rt]
  show "fst (getUrl rt m) =
        [Sent (Soql (''SELECT Id FROM ProcessDefinition WHERE DeveloperName = 'undefined' AND Type = 'Approval'' @ [CHR 0x27]))]"
    by (simp add: run)
  show "snd (getUrl rt m) =
           Inr (''lightning/setup/ApprovalProcesses/page?address=%2F'' @ js_str (r ''Id''))"
    if "respond (conn m)
                 (Soql (''SELECT Id FROM ProcessDefinition WHERE DeveloperName = 'undefined' AND Type = 'Approval'' @ [CHR 0x27]))
                = Inr (r # rs)" for r rs
    using that by (simp add: run)
  show "snd (getUrl rt m) = Inl (Error (''Approval process not found for '' @ metadataApiName m))"
    if "respond (conn m)
         (Soql (''SELECT Id FROM ProcessDefinition WHERE DeveloperName = 'undefined' AND Type = 'Approval'' @ [CHR 0x27]))
        = Inr []"
    using that by (simp add: run)
next
  assume d: "CHR ''.'' \<notin> set (metadataApiName m)" and k: "kind m = QuickAction"
  show "fst (getUrl rt m) =
        [Sent (object_query (metadataApiName m)),
         Sent (ToolingFind ''QuickActionDefinition'' [(''DeveloperName'', None)])]"
    by (rule QuickAction_no_dot(1)[OF k d])
  show "snd (getUrl rt m) =
           Inr (''lightning/setup/ObjectManager/'' @ js_str (ob ''Id'') @
                ''/ButtonsLinksActions/'' @ js_str (r ''Id'') @ ''/view'')"
    if "respond (conn m) (object_query (metadataApiName m)) = Inr (ob # obs)"
      and "respond (conn m) (ToolingFind ''QuickActionDefinition'' [(''DeveloperName'', None)])
           = Inr (r # rs)" for ob obs r rs
    using that by (rule QuickAction_no_dot(2)[OF k d])
  show "snd (getUrl rt m) = Inl (Error ''QuickAction not found for undefined'')"
    if "respond (conn m) (object_query (metadataApiName m)) = Inr (ob # obs)"
      and "respond (conn m) (ToolingFind ''QuickActionDefinition'' [(''DeveloperName'', None)])
           = Inr []" for ob obs
    using that by (rule QuickAction_no_dot(3)[OF k d])
qed

lemma undotted_simps:
  "kind undotted_approval = ApprovalProcess" "metadataApiName undotted_approval = ''Discount''"
  "conn undotted_approval = demo_org"
  "kind undotted_action = QuickAction" "metadataApiName undotted_action = ''Account''"
  "conn undotted_action = demo_org"
  by (simp_all add: undotted_approval_def undotted_action_def new_Metadata_def path_of_def
      substring0_def)

lemma object_query_Account:
  "object_query ''Account'' = ToolingFind ''CustomObject'' [(''DeveloperName'', Some ''Account'')]"
  using developer_name_no_separator[of "''Account''"] by (simp add: object_query_def)

theorem undefined_developer_name_witness:
  "CHR ''.'' \<notin> set (metadataApiName undotted_approval) \<and>
   kind undotted_approval = ApprovalProcess \<and>
   getUrl unix undotted_approval =
     ([Sent (Soql (''SELECT Id FROM ProcessDefinition WHERE DeveloperName = 'undefined' AND Type = 'Approval'' @ [CHR 0x27]))],
      Inl (Error ''Approval process not found for Discount'')) \<and>
   CHR ''.'' \<notin> set (metadataApiName undotted_action) \<and>
   kind undotted_action = QuickAction \<and>
   getUrl unix undotted_action =
     ([Sent (ToolingFind ''CustomObject'' [(''DeveloperName'', Some ''Account'')]),
       Sent (ToolingFind ''QuickActionDefinition'' [(''DeveloperName'', None)])],
      Inl (Error ''QuickAction not found for undefined''))"
proof -
  have a: "respond demo_org
     (Soql (''SELECT Id FROM ProcessDefinition WHERE DeveloperName = 'undefined' AND Type = 'Approval'' @ [CHR 0x27])) = Inr []"
    by (simp add: demo_org_def)
  have b: "respond demo_org (ToolingFind ''QuickActionDefinition'' [(''DeveloperName'', None)]) = Inr []"
    by (simp add: demo_org_def)
  have c: "respond demo_org (object_query ''Account'') = Inr [record_with_id ''01I001'']"
    by (simp add: object_query_Account demo_org_def)
  show ?thesis
    using undefined_developer_name[of undotted_approval unix]
      undefined_developer_name[of undotted_action unix] a b c
    by (simp add: undotted_simps prod_eq_iff object_query_Account)
qed

section \<open>Custom fields\<close>




section \<open>The contract of the resolvers\<close>

lemma kind_cases:
  "kind m \<in> simple \<or> kind m = SObject \<or> kind m = QuickAction \<or> kind m = PageLayout \<or>
   kind m = RecordType \<or> kind m = Field"
  by (cases "kind m") (simp_all add: simple_def)

lemma my_flow_simps:
  "kind (my_flow c) = Flow" "conn (my_flow c) = c" "metadataApiName (my_flow c) = ''MyFlow''"
  by (simp_all add: my_flow_def new_Metadata_def path_of_def substring0_def)

lemma my_flow_demo:
  "getUrl rt (my_flow demo_org) =
     ([Sent (ToolingFind ''FlowDefinition'' [(''DeveloperName'', Some ''MyFlow'')])],
      Inr ''lightning/setup/Flows/page?address=%2F300004'')"
  by (simp add: getUrl_def Flow_getUrl_def my_flow_simps io_defs demo_org_def js_str_def
      record_with_id_def)

lemma my_flow_empty:
  "getUrl rt (my_flow empty_org) =
     ([Sent (ToolingFind ''FlowDefinition'' [(''DeveloperName'', Some ''MyFlow'')])],
      Inl (Error ''Flow not found for MyFlow''))"
  by (simp add: getUrl_def Flow_getUrl_def my_flow_simps io_defs empty_org_def)

lemma getUrl_unmatched_fails:
  "unmatched (conn m) (fst (getUrl rt m)) \<Longrightarrow> \<exists>e. snd (getUrl rt m) = Inl e"
  using kind_cases[of m] failed_simple failed_SObject failed_QuickAction failed_PageLayout
    failed_RecordType failed_Field
  by blast

lemma getUrl_first_only: "getUrl rt (m\<lparr>conn := first_only (conn m)\<rparr>) = getUrl rt m"
  using kind_cases[of m] first_simple first_SObject first_QuickAction first_PageLayout
    first_RecordType first_Field
  by blast

subsection \<open>Segments and outcomes\<close>

lemma takeWhile_free:
  "c \<notin> set a \<Longrightarrow> takeWhile (\<lambda>x. x \<noteq> c) (a @ t) = a @ takeWhile (\<lambda>x. x \<noteq> c) t"
  by (induction a) auto

lemma dropWhile_free:
  "c \<notin> set a \<Longrightarrow> dropWhile (\<lambda>x. x \<noteq> c) (a @ t) = dropWhile (\<lambda>x. x \<noteq> c) t"
  by (induction a) auto

lemma first_segment_split:
  "js_index (js_split s [c]) 0 = Some (first_segment c s)"
proof (cases "c \<in> set s")
  case False
  then have tw: "takeWhile (\<lambda>x. x \<noteq> c) s = s" using takeWhile_free[of c s "[]"] by simp
  show ?thesis using False by (simp add: js_split_char_free js_index_def first_segment_def tw)
next
  case True
  then obtain a r where s: "s = a @ c # r" and a: "c \<notin> set a"
    by (auto dest: split_list_first)
  have "takeWhile (\<lambda>x. x \<noteq> c) s = a"
    using takeWhile_free[OF a, of "c # r"] by (simp add: s)
  moreover have "js_split s [c] = a # js_split r [c]"
    using a by (simp add: s js_split_char_append js_split_char_free)
  ultimately show ?thesis by (simp add: js_index_def first_segment_def)
qed

lemma second_segment_split:
  "js_index (js_split s [c]) 1 = second_segment c s"
proof (cases "c \<in> set s")
  case False
  then show ?thesis by (simp add: js_split_char_free js_index_def second_segment_def)
next
  case True
  then obtain a r where s: "s = a @ c # r" and a: "c \<notin> set a"
    by (auto dest: split_list_first)
  have d: "dropWhile (\<lambda>x. x \<noteq> c) s = c # r"
    using dropWhile_free[OF a, of "c # r"] by (simp add: s)
  have sp: "js_split s [c] = a # js_split r [c]"
    using a by (simp add: s js_split_char_append js_split_char_free)
  obtain q qs where q: "js_split r [c] = q # qs"
    using js_split_nonempty[of "[c]" r] by (cases "js_split r [c]") auto
  have "Some q = Some (first_segment c r)"
    using first_segment_split[of r c] q by (simp add: js_index_def)
  then show ?thesis
    using True by (simp add: sp q d js_index_def second_segment_def)
qed

lemmas seg = first_segment_split[of _ "CHR ''.''"] second_segment_split[of _ "CHR ''.''"]
  first_segment_split[of _ "CHR ''-''"] second_segment_split[of _ "CHR ''-''"]

lemmas outcome_defs = single_lookup_def joined_lookups_def chained_lookups_def

lemma Flow_pinned:
  "kind m = Flow \<longrightarrow>
      getUrl rt m =
        single_lookup (conn m)
          (ToolingFind ''FlowDefinition'' [(''DeveloperName'', Some (metadataApiName m))])
          (Error (''Flow not found for '' @ metadataApiName m))
          (\<lambda>r. ''lightning/setup/Flows/page?address=%2F'' @ js_str (r ''Id''))"
  by (auto simp: getUrl_def Flow_getUrl_def io_defs outcome_defs
      split: sum.splits list.splits option.splits)

lemma Field_pinned:
  "kind m = Field \<longrightarrow>
      getUrl rt m =
        (if isStandardField (metadataApiName m)
         then ([], Inr (''lightning/setup/ObjectManager/'' @ js_str (object_folder rt m) @
                        ''/FieldsAndRelationships/'' @
                        (if endsWith (metadataApiName m) ''Id''
                         then take (length (metadataApiName m) - 2) (metadataApiName m)
                         else metadataApiName m) @ ''/view''))
         else
           (case object_folder rt m of
              None \<Rightarrow> ([], Inl TypeError)
            | Some folder \<Rightarrow>
                chained_lookups (conn m) folder
                  (\<lambda>objectId. ToolingFind ''CustomField''
                     [(''DeveloperName'', getObjectFieldDeveloperName (metadataApiName m)),
                      (''TableEnumOrId'', objectId)])
                  (Error (''Field not found for '' @
                          js_str (getObjectFieldDeveloperName (metadataApiName m))))
                  (\<lambda>objectId r.
                     if isCustomMetadata folder
                     then ''lightning/setup/CustomMetadata/page?address=%2F'' @ js_str (r ''Id'') @
                          ''%3Fsetupid%3DCustomMetadata''
                     else if isPlatformEvent folder
                     then ''lightning/setup/EventObjects/page?address=%2F'' @ js_str (r ''Id'') @
                          ''%3Fsetupid%3DEventObjects''
                     else ''lightning/setup/ObjectManager/'' @ js_str objectId @
                          ''/FieldsAndRelationships/'' @ js_str (r ''Id'') @ ''/view'')))"
  by (auto simp: getUrl_def Field_getUrl_def io_defs outcome_defs getObjectId_cases object_folder_def substring0_length_minus[of _ 2, simplified] Let_def
      split: sum.splits list.splits option.splits)

lemma ValidationRule_pinned:
  "kind m = ValidationRule \<longrightarrow>
      getUrl rt m =
        single_lookup (conn m)
          (ToolingFind ''ValidationRule'' [(''ValidationName'', Some (metadataApiName m))])
          (Error (''ValidationRule not found for '' @ metadataApiName m))
          (\<lambda>r. ''lightning/setup/ObjectManager/'' @ js_str (r ''EntityDefinitionId'') @
             ''/ValidationRules/'' @ js_str (r ''Id'') @ ''/view'')"
  by (auto simp: getUrl_def ValidationRule_getUrl_def io_defs outcome_defs
      split: sum.splits list.splits option.splits)

lemma FlexiPage_pinned:
  "kind m = FlexiPage \<longrightarrow>
      getUrl rt m =
        single_lookup (conn m)
          (ToolingFind ''FlexiPage'' [(''DeveloperName'', Some (metadataApiName m))])
          (Error (''FlexiPage not found for '' @ metadataApiName m))
          (\<lambda>r. ''visualEditor/appBuilder.app?id='' @ js_str (r ''Id''))"
  by (auto simp: getUrl_def FlexiPage_getUrl_def io_defs outcome_defs
      split: sum.splits list.splits option.splits)

lemma Profile_pinned:
  "kind m = Profile \<longrightarrow>
      getUrl rt m =
        single_lookup (conn m)
          (ToolingFind ''Profile'' [(''Name'', Some (metadataApiName m))])
          (Error (''Profile not found for '' @ metadataApiName m))
          (\<lambda>r. ''lightning/setup/EnhancedProfiles/page?address=%2F'' @ js_str (r ''Id''))"
  by (auto simp: getUrl_def Profile_getUrl_def io_defs outcome_defs
      split: sum.splits list.splits option.splits)

lemma PermissionSet_pinned:
  "kind m = PermissionSet \<longrightarrow>
      getUrl rt m =
        single_lookup (conn m)
          (ToolingFind ''PermissionSet'' [(''Name'', Some (metadataApiName m))])
          (Error (''PermissionSet not found for '' @ metadataApiName m))
          (\<lambda>r. ''lightning/setup/PermSets/page?address=%2F'' @ js_str (r ''Id''))"
  by (auto simp: getUrl_def PermissionSet_getUrl_def io_defs outcome_defs
      split: sum.splits list.splits option.splits)

lemma PermissionSetGroup_pinned:
  "kind m = PermissionSetGroup \<longrightarrow>
      getUrl rt m =
        single_lookup (conn m)
          (ToolingFind ''PermissionSetGroup'' [(''DeveloperName'', Some (metadataApiName m))])
          (Error (''PermissionSetGroup not found for '' @ metadataApiName m))
          (\<lambda>r. ''lightning/setup/PermSetGroups/page?address=%2F'' @ js_str (r ''Id''))"
  by (auto simp: getUrl_def PermissionSetGroup_getUrl_def io_defs outcome_defs
      split: sum.splits list.splits option.splits)

lemma ApexClass_pinned:
  "kind m = ApexClass \<longrightarrow>
      getUrl rt m =
        single_lookup (conn m)
          (ToolingFind ''ApexClass'' [(''Name'', Some (metadataApiName m))])
          (Error (''ApexClass not found for '' @ metadataApiName m))
          (\<lambda>r. ''lightning/setup/ApexClasses/page?address=%2F'' @ js_str (r ''Id''))"
  by (auto simp: getUrl_def ApexClass_getUrl_def io_defs outcome_defs
      split: sum.splits list.splits option.splits)

lemma ApexTrigger_pinned:
  "kind m = ApexTrigger \<longrightarrow>
      getUrl rt m =
        single_lookup (conn m)
          (ToolingFind ''ApexTrigger'' [(''Name'', Some (metadataApiName m))])
          (Error (''ApexTrigger not found for '' @ metadataApiName m))
          (\<lambda>r. ''lightning/setup/ApexTriggers/page?address=%2F'' @ js_str (r ''Id''))"
  by (auto simp: getUrl_def ApexTrigger_getUrl_def io_defs outcome_defs
      split: sum.splits list.splits option.splits)

lemma RecordType_pinned:
  "kind m = RecordType \<longrightarrow>
      getUrl rt m =
        (case object_folder rt m of
           None \<Rightarrow>
             ([Sent (Soql (''SELECT Id, DeveloperName FROM RecordType WHERE DeveloperName = '' @
                     [CHR 0x27] @ metadataApiName m @ [CHR 0x27]))],
              case respond (conn m)
                     (Soql (''SELECT Id, DeveloperName FROM RecordType WHERE DeveloperName = '' @
                     [CHR 0x27] @ metadataApiName m @ [CHR 0x27])) of
                Inl e \<Rightarrow> Inl (if second_rejects_first (conn m) then e else TypeError)
              | Inr records \<Rightarrow> Inl TypeError)
         | Some folder \<Rightarrow>
             joined_lookups (conn m) folder
               (Soql (''SELECT Id, DeveloperName FROM RecordType WHERE DeveloperName = '' @
                     [CHR 0x27] @ metadataApiName m @ [CHR 0x27]))
               (Error (''RecordType not found for '' @ metadataApiName m))
               (\<lambda>objectId r. ''lightning/setup/ObjectManager/'' @ js_str objectId @
                              ''/RecordTypes/'' @ js_str (r ''Id'') @ ''/view''))"
  by (auto simp: getUrl_def RecordType_getUrl_def io_defs outcome_defs getObjectId_cases object_folder_def Let_def
      split: sum.splits list.splits option.splits)

lemma PageLayout_pinned:
  "kind m = PageLayout \<longrightarrow>
      getUrl rt m =
        (case decodeURIComponent rt (js_str (second_segment CHR ''-'' (metadataApiName m))) of
           None \<Rightarrow>
             ([Sent (object_query (first_segment CHR ''-'' (metadataApiName m)))], Inl URIError)
         | Some decoded \<Rightarrow>
             joined_lookups (conn m) (first_segment CHR ''-'' (metadataApiName m))
               (ToolingFind ''Layout'' [(''Name'', Some decoded)])
               (Error (''Layout not found for '' @
                       js_str (second_segment CHR ''-'' (metadataApiName m))))
               (\<lambda>objectId r. ''lightning/setup/ObjectManager/'' @ js_str objectId @
                              ''/PageLayouts/'' @ js_str (r ''Id'') @ ''/view''))"
  by (auto simp: getUrl_def PageLayout_getUrl_def io_defs outcome_defs getObjectId_cases seg Let_def
      split: sum.splits list.splits option.splits)

lemma SObject_pinned:
  "kind m = SObject \<longrightarrow>
      getUrl rt m =
        single_lookup (conn m) (object_query (metadataApiName m))
          (Error (''Object not found for '' @ metadataApiName m))
          (\<lambda>r. if isCustomMetadata (metadataApiName m)
               then ''lightning/setup/CustomMetadata/page?address=%2F'' @ js_str (r ''Id'') @
                    ''%3Fsetupid%3DCustomMetadata''
               else if isPlatformEvent (metadataApiName m)
               then ''lightning/setup/EventObjects/page?address=%2F'' @ js_str (r ''Id'') @
                    ''%3Fsetupid%3DEventObjects''
               else ''lightning/setup/ObjectManager/'' @ js_str (r ''Id'') @ ''/Details/view'')"
  by (auto simp: getUrl_def SObject_getUrl_def io_defs outcome_defs getObjectId_cases
      split: sum.splits list.splits option.splits)

lemma GlobalValueSet_pinned:
  "kind m = GlobalValueSet \<longrightarrow>
      getUrl rt m =
        single_lookup (conn m)
          (ToolingFind ''GlobalValueSet'' [(''DeveloperName'', Some (metadataApiName m))])
          (Error (''GlobalValueSet not found for '' @ metadataApiName m))
          (\<lambda>r. ''lightning/setup/Picklists/page?address=%2F'' @ js_str (r ''Id''))"
  by (auto simp: getUrl_def GlobalValueSet_getUrl_def io_defs outcome_defs
      split: sum.splits list.splits option.splits)

lemma QuickAction_pinned:
  "kind m = QuickAction \<longrightarrow>
      getUrl rt m =
        joined_lookups (conn m) (first_segment CHR ''.'' (metadataApiName m))
          (ToolingFind ''QuickActionDefinition''
             [(''DeveloperName'', second_segment CHR ''.'' (metadataApiName m))])
          (Error (''QuickAction not found for '' @
                  js_str (second_segment CHR ''.'' (metadataApiName m))))
          (\<lambda>objectId r. ''lightning/setup/ObjectManager/'' @ js_str objectId @
                         ''/ButtonsLinksActions/'' @ js_str (r ''Id'') @ ''/view'')"
  by (auto simp: getUrl_def QuickAction_getUrl_def io_defs outcome_defs getObjectId_cases seg Let_def
      split: sum.splits list.splits option.splits)

lemma ApprovalProcess_pinned:
  "kind m = ApprovalProcess \<longrightarrow>
      getUrl rt m =
        single_lookup (conn m)
          (Soql (''SELECT Id FROM ProcessDefinition WHERE DeveloperName = '' @ [CHR 0x27] @
                 js_str (second_segment CHR ''.'' (metadataApiName m)) @ [CHR 0x27] @
                 '' AND Type = '' @ [CHR 0x27] @ ''Approval'' @ [CHR 0x27]))
          (Error (''Approval process not found for '' @ metadataApiName m))
          (\<lambda>r. ''lightning/setup/ApprovalProcesses/page?address=%2F'' @ js_str (r ''Id''))"
  by (auto simp: getUrl_def ApprovalProcess_getUrl_def io_defs outcome_defs seg
      split: sum.splits list.splits option.splits)

text \<open>
  C1 (as amended): every resolver, pinned. A run that has sent a query answered with
  no record fails, it never returns a URL; and cutting every answer down to its first
  record changes neither the queries nor the result, so further records are no
  error. Each resolver sends exactly the queries below, and the answers decide: no
  record for its own lookup is the error \<^verbatim>\<open>{Kind} not found for {name}\<close> with the kind and
  the name given here, no record for the object-id lookup is
  \<^verbatim>\<open>Object not found for {objectName}\<close>, a record gives the URL. Another failure comes
  first where there is one: a query that the connection rejects, a \<^verbatim>\<open>TypeError\<close> when
  the directory has no folder for the object, a \<^verbatim>\<open>URIError\<close> when the layout name
  cannot be decoded.
\<close>

theorem getUrl_pinned:
  "(unmatched (conn m) (fst (getUrl rt m)) \<longrightarrow> (\<exists>e. snd (getUrl rt m) = Inl e)) \<and>
   getUrl rt (m\<lparr>conn := first_only (conn m)\<rparr>) = getUrl rt m \<and>
   (kind m = Flow \<longrightarrow>
      getUrl rt m =
        single_lookup (conn m)
          (ToolingFind ''FlowDefinition'' [(''DeveloperName'', Some (metadataApiName m))])
          (Error (''Flow not found for '' @ metadataApiName m))
          (\<lambda>r. ''lightning/setup/Flows/page?address=%2F'' @ js_str (r ''Id''))) \<and>
   (kind m = Field \<longrightarrow>
      getUrl rt m =
        (if isStandardField (metadataApiName m)
         then ([], Inr (''lightning/setup/ObjectManager/'' @ js_str (object_folder rt m) @
                        ''/FieldsAndRelationships/'' @
                        (if endsWith (metadataApiName m) ''Id''
                         then take (length (metadataApiName m) - 2) (metadataApiName m)
                         else metadataApiName m) @ ''/view''))
         else
           (case object_folder rt m of
              None \<Rightarrow> ([], Inl TypeError)
            | Some folder \<Rightarrow>
                chained_lookups (conn m) folder
                  (\<lambda>objectId. ToolingFind ''CustomField''
                     [(''DeveloperName'', getObjectFieldDeveloperName (metadataApiName m)),
                      (''TableEnumOrId'', objectId)])
                  (Error (''Field not found for '' @
                          js_str (getObjectFieldDeveloperName (metadataApiName m))))
                  (\<lambda>objectId r.
                     if isCustomMetadata folder
                     then ''lightning/setup/CustomMetadata/page?address=%2F'' @ js_str (r ''Id'') @
                          ''%3Fsetupid%3DCustomMetadata''
                     else if isPlatformEvent folder
                     then ''lightning/setup/EventObjects/page?address=%2F'' @ js_str (r ''Id'') @
                          ''%3Fsetupid%3DEventObjects''
                     else ''lightning/setup/ObjectManager/'' @ js_str objectId @
                          ''/FieldsAndRelationships/'' @ js_str (r ''Id'') @ ''/view'')))) \<and>
   (kind m = ValidationRule \<longrightarrow>
      getUrl rt m =
        single_lookup (conn m)
          (ToolingFind ''ValidationRule'' [(''ValidationName'', Some (metadataApiName m))])
          (Error (''ValidationRule not found for '' @ metadataApiName m))
          (\<lambda>r. ''lightning/setup/ObjectManager/'' @ js_str (r ''EntityDefinitionId'') @
             ''/ValidationRules/'' @ js_str (r ''Id'') @ ''/view'')) \<and>
   (kind m = FlexiPage \<longrightarrow>
      getUrl rt m =
        single_lookup (conn m)
          (ToolingFind ''FlexiPage'' [(''DeveloperName'', Some (metadataApiName m))])
          (Error (''FlexiPage not found for '' @ metadataApiName m))
          (\<lambda>r. ''visualEditor/appBuilder.app?id='' @ js_str (r ''Id''))) \<and>
   (kind m = Profile \<longrightarrow>
      getUrl rt m =
        single_lookup (conn m)
          (ToolingFind ''Profile'' [(''Name'', Some (metadataApiName m))])
          (Error (''Profile not found for '' @ metadataApiName m))
          (\<lambda>r. ''lightning/setup/EnhancedProfiles/page?address=%2F'' @ js_str (r ''Id''))) \<and>
   (kind m = PermissionSet \<longrightarrow>
      getUrl rt m =
        single_lookup (conn m)
          (ToolingFind ''PermissionSet'' [(''Name'', Some (metadataApiName m))])
          (Error (''PermissionSet not found for '' @ metadataApiName m))
          (\<lambda>r. ''lightning/setup/PermSets/page?address=%2F'' @ js_str (r ''Id''))) \<and>
   (kind m = PermissionSetGroup \<longrightarrow>
      getUrl rt m =
        single_lookup (conn m)
          (ToolingFind ''PermissionSetGroup'' [(''DeveloperName'', Some (metadataApiName m))])
          (Error (''PermissionSetGroup not found for '' @ metadataApiName m))
          (\<lambda>r. ''lightning/setup/PermSetGroups/page?address=%2F'' @ js_str (r ''Id''))) \<and>
   (kind m = ApexClass \<longrightarrow>
      getUrl rt m =
        single_lookup (conn m)
          (ToolingFind ''ApexClass'' [(''Name'', Some (metadataApiName m))])
          (Error (''ApexClass not found for '' @ metadataApiName m))
          (\<lambda>r. ''lightning/setup/ApexClasses/page?address=%2F'' @ js_str (r ''Id''))) \<and>
   (kind m = ApexTrigger \<longrightarrow>
      getUrl rt m =
        single_lookup (conn m)
          (ToolingFind ''ApexTrigger'' [(''Name'', Some (metadataApiName m))])
          (Error (''ApexTrigger not found for '' @ metadataApiName m))
          (\<lambda>r. ''lightning/setup/ApexTriggers/page?address=%2F'' @ js_str (r ''Id''))) \<and>
   (kind m = RecordType \<longrightarrow>
      getUrl rt m =
        (case object_folder rt m of
           None \<Rightarrow>
             ([Sent (Soql (''SELECT Id, DeveloperName FROM RecordType WHERE DeveloperName = '' @
                     [CHR 0x27] @ metadataApiName m @ [CHR 0x27]))],
              case respond (conn m)
                     (Soql (''SELECT Id, DeveloperName FROM RecordType WHERE DeveloperName = '' @
                     [CHR 0x27] @ metadataApiName m @ [CHR 0x27])) of
                Inl e \<Rightarrow> Inl (if second_rejects_first (conn m) then e else TypeError)
              | Inr records \<Rightarrow> Inl TypeError)
         | Some folder \<Rightarrow>
             joined_lookups (conn m) folder
               (Soql (''SELECT Id, DeveloperName FROM RecordType WHERE DeveloperName = '' @
                     [CHR 0x27] @ metadataApiName m @ [CHR 0x27]))
               (Error (''RecordType not found for '' @ metadataApiName m))
               (\<lambda>objectId r. ''lightning/setup/ObjectManager/'' @ js_str objectId @
                              ''/RecordTypes/'' @ js_str (r ''Id'') @ ''/view''))) \<and>
   (kind m = PageLayout \<longrightarrow>
      getUrl rt m =
        (case decodeURIComponent rt (js_str (second_segment CHR ''-'' (metadataApiName m))) of
           None \<Rightarrow>
             ([Sent (object_query (first_segment CHR ''-'' (metadataApiName m)))], Inl URIError)
         | Some decoded \<Rightarrow>
             joined_lookups (conn m) (first_segment CHR ''-'' (metadataApiName m))
               (ToolingFind ''Layout'' [(''Name'', Some decoded)])
               (Error (''Layout not found for '' @
                       js_str (second_segment CHR ''-'' (metadataApiName m))))
               (\<lambda>objectId r. ''lightning/setup/ObjectManager/'' @ js_str objectId @
                              ''/PageLayouts/'' @ js_str (r ''Id'') @ ''/view''))) \<and>
   (kind m = SObject \<longrightarrow>
      getUrl rt m =
        single_lookup (conn m) (object_query (metadataApiName m))
          (Error (''Object not found for '' @ metadataApiName m))
          (\<lambda>r. if isCustomMetadata (metadataApiName m)
               then ''lightning/setup/CustomMetadata/page?address=%2F'' @ js_str (r ''Id'') @
                    ''%3Fsetupid%3DCustomMetadata''
               else if isPlatformEvent (metadataApiName m)
               then ''lightning/setup/EventObjects/page?address=%2F'' @ js_str (r ''Id'') @
                    ''%3Fsetupid%3DEventObjects''
               else ''lightning/setup/ObjectManager/'' @ js_str (r ''Id'') @ ''/Details/view'')) \<and>
   (kind m = GlobalValueSet \<longrightarrow>
      getUrl rt m =
        single_lookup (conn m)
          (ToolingFind ''GlobalValueSet'' [(''DeveloperName'', Some (metadataApiName m))])
          (Error (''GlobalValueSet not found for '' @ metadataApiName m))
          (\<lambda>r. ''lightning/setup/Picklists/page?address=%2F'' @ js_str (r ''Id''))) \<and>
   (kind m = QuickAction \<longrightarrow>
      getUrl rt m =
        joined_lookups (conn m) (first_segment CHR ''.'' (metadataApiName m))
          (ToolingFind ''QuickActionDefinition''
             [(''DeveloperName'', second_segment CHR ''.'' (metadataApiName m))])
          (Error (''QuickAction not found for '' @
                  js_str (second_segment CHR ''.'' (metadataApiName m))))
          (\<lambda>objectId r. ''lightning/setup/ObjectManager/'' @ js_str objectId @
                         ''/ButtonsLinksActions/'' @ js_str (r ''Id'') @ ''/view'')) \<and>
   (kind m = ApprovalProcess \<longrightarrow>
      getUrl rt m =
        single_lookup (conn m)
          (Soql (''SELECT Id FROM ProcessDefinition WHERE DeveloperName = '' @ [CHR 0x27] @
                 js_str (second_segment CHR ''.'' (metadataApiName m)) @ [CHR 0x27] @
                 '' AND Type = '' @ [CHR 0x27] @ ''Approval'' @ [CHR 0x27]))
          (Error (''Approval process not found for '' @ metadataApiName m))
          (\<lambda>r. ''lightning/setup/ApprovalProcesses/page?address=%2F'' @ js_str (r ''Id'')))"
proof -
  have u: "unmatched (conn m) (fst (getUrl rt m)) \<longrightarrow> (\<exists>e. snd (getUrl rt m) = Inl e)"
    using getUrl_unmatched_fails[of m rt] by blast
  show ?thesis
    by (intro conjI u getUrl_first_only
      Flow_pinned Field_pinned ValidationRule_pinned FlexiPage_pinned Profile_pinned
      PermissionSet_pinned PermissionSetGroup_pinned ApexClass_pinned ApexTrigger_pinned
      RecordType_pinned PageLayout_pinned SObject_pinned GlobalValueSet_pinned
      QuickAction_pinned ApprovalProcess_pinned)
qed

theorem getUrl_pinned_witness:
  "kind (my_flow empty_org) = Flow \<and>
   unmatched (conn (my_flow empty_org)) (fst (getUrl unix (my_flow empty_org))) \<and>
   getUrl unix (my_flow empty_org) =
     ([Sent (ToolingFind ''FlowDefinition'' [(''DeveloperName'', Some ''MyFlow'')])],
      Inl (Error ''Flow not found for MyFlow'')) \<and>
   kind (my_flow demo_org) = Flow \<and>
   respond demo_org (ToolingFind ''FlowDefinition'' [(''DeveloperName'', Some ''MyFlow'')])
     = Inr [record_with_id ''300004'', record_with_id ''300005''] \<and>
   getUrl unix (my_flow demo_org) =
     ([Sent (ToolingFind ''FlowDefinition'' [(''DeveloperName'', Some ''MyFlow'')])],
      Inr ''lightning/setup/Flows/page?address=%2F300004'') \<and>
   getUrl unix (my_flow (first_only demo_org)) = getUrl unix (my_flow demo_org)"
proof -
  have r: "respond empty_org (ToolingFind ''FlowDefinition'' [(''DeveloperName'', Some ''MyFlow'')])
             = Inr []"
    "respond demo_org (ToolingFind ''FlowDefinition'' [(''DeveloperName'', Some ''MyFlow'')])
       = Inr [record_with_id ''300004'', record_with_id ''300005'']"
    by (simp_all add: empty_org_def demo_org_def)
  note e = getUrl_pinned[of "my_flow empty_org" unix, THEN conjunct2, THEN conjunct2, THEN conjunct1]
  note d = getUrl_pinned[of "my_flow demo_org" unix, THEN conjunct2, THEN conjunct2, THEN conjunct1]
  note d' = getUrl_pinned[of "my_flow demo_org" unix, THEN conjunct2, THEN conjunct1]
  have run_e: "getUrl unix (my_flow empty_org) =
     ([Sent (ToolingFind ''FlowDefinition'' [(''DeveloperName'', Some ''MyFlow'')])],
      Inl (Error ''Flow not found for MyFlow''))"
    using e by (simp add: my_flow_simps single_lookup_def r)
  have run_d: "getUrl unix (my_flow demo_org) =
     ([Sent (ToolingFind ''FlowDefinition'' [(''DeveloperName'', Some ''MyFlow'')])],
      Inr ''lightning/setup/Flows/page?address=%2F300004'')"
    using d by (simp add: my_flow_simps single_lookup_def r js_str_def record_with_id_def)
  have u: "unmatched (conn (my_flow empty_org)) (fst (getUrl unix (my_flow empty_org)))"
    unfolding run_e my_flow_simps unmatched_def queries_def by (simp add: r)
  have f: "(my_flow demo_org)\<lparr>conn := first_only (conn (my_flow demo_org))\<rparr>
             = my_flow (first_only demo_org)"
    by (simp add: my_flow_def new_Metadata_def)
  have "getUrl unix (my_flow (first_only demo_org)) = getUrl unix (my_flow demo_org)"
    using d' unfolding f .
  then show ?thesis using run_e run_d u r my_flow_simps by simp
qed

lemma business_record_type_simps:
  "kind business_record_type = RecordType" "conn business_record_type = empty_org"
  "metadataApiName business_record_type = ''Business''"
  "dir (pathParsed business_record_type) = ''recordTypes''"
  by (simp_all add: business_record_type_def new_Metadata_def path_of_def substring0_def)

text \<open>
  C1 as stated fails for a record type whose directory has a single segment: the
  record-type query is sent and answered with no record, and the error is a
  \<^verbatim>\<open>TypeError\<close>, not \<^verbatim>\<open>RecordType not found\<close>.
\<close>

theorem getUrl_pinned_counterexample:
  "respond (conn business_record_type)
     (Soql (''SELECT Id, DeveloperName FROM RecordType WHERE DeveloperName = 'Business'' @ [CHR 0x27]))
     = Inr [] \<and>
   getUrl unix business_record_type =
     ([Sent (Soql (''SELECT Id, DeveloperName FROM RecordType WHERE DeveloperName = 'Business'' @
                   [CHR 0x27]))],
      Inl TypeError)"
proof -
  have folder: "object_folder unix business_record_type = None"
    using object_folder_single[of unix "CHR ''/''" business_record_type]
    by (simp add: business_record_type_simps unix_def)
  have r: "respond empty_org
     (Soql (''SELECT Id, DeveloperName FROM RecordType WHERE DeveloperName = 'Business'' @ [CHR 0x27]))
     = Inr []"
    by (simp add: empty_org_def)
  have "getUrl unix business_record_type =
     ([Sent (Soql (''SELECT Id, DeveloperName FROM RecordType WHERE DeveloperName = 'Business'' @
                   [CHR 0x27]))],
      Inl TypeError)"
    using RecordType_pinned[of business_record_type unix] r
    by (simp add: folder business_record_type_simps)
  then show ?thesis using r by (simp add: business_record_type_simps)
qed

section \<open>Layouts\<close>









section \<open>Launching the browser\<close>

lemma getUrl_no_commands: "commands (fst (getUrl rt m)) = []"
  using kind_cases[of m] sends_simple sends_SObject sends_QuickAction sends_PageLayout
    sends_RecordType sends_Field
  by blast

lemma commands_append [simp]: "commands (xs @ ys) = commands xs @ commands ys"
  by (simp add: commands_def)

lemma go_created:
  assumes "create c (getExtension (base (path_parse rt s))) (path_parse rt s) = Inr m"
  shows "go rt c s =
    io_bind (getUrl rt m)
      (\<lambda>url. execPromise rt ((if platform rt = ''win32'' then ''start '' else ''open '') @
                               instanceUrl c @ ''/'' @ url))"
  using assms by (simp add: go_def Let_def isWindows_def cong: if_cong)

text \<open>
  C8: when dispatch and the resolver succeed with a relative URL, \<^verbatim>\<open>go\<close> runs exactly
  one command: \<^verbatim>\<open>start\<close> on Windows and \<^verbatim>\<open>open\<close> elsewhere, followed by the base
  URL of the org, a slash and the relative URL. When dispatch or the resolver fails,
  \<^verbatim>\<open>go\<close> fails with the same error and runs no command.
\<close>

theorem go_launches_browser:
  "(create c (getExtension (base (path_parse rt s))) (path_parse rt s) = Inr m \<and>
    snd (getUrl rt m) = Inr url \<longrightarrow>
      commands (fst (go rt c s)) =
        [(if platform rt = ''win32'' then ''start '' else ''open '') @ instanceUrl c @ ''/'' @ url]) \<and>
   (create c (getExtension (base (path_parse rt s))) (path_parse rt s) = Inr m \<and>
    snd (getUrl rt m) = Inl e \<longrightarrow>
      commands (fst (go rt c s)) = [] \<and> snd (go rt c s) = Inl e) \<and>
   (create c (getExtension (base (path_parse rt s))) (path_parse rt s) = Inl e \<longrightarrow>
      go rt c s = ([], Inl e))"
proof (intro conjI impI; (elim conjE)?)
  assume cr: "create c (getExtension (base (path_parse rt s))) (path_parse rt s) = Inr m"
    and ok: "snd (getUrl rt m) = Inr url"
  show "commands (fst (go rt c s)) =
        [(if platform rt = ''win32'' then ''start '' else ''open '') @ instanceUrl c @ ''/'' @ url]"
    using getUrl_no_commands[of rt m] ok
    by (simp add: go_created[OF cr] io_bind_def execPromise_def commands_def)
next
  assume cr: "create c (getExtension (base (path_parse rt s))) (path_parse rt s) = Inr m"
    and bad: "snd (getUrl rt m) = Inl e"
  show "commands (fst (go rt c s)) = []"
    using getUrl_no_commands[of rt m] bad by (simp add: go_created[OF cr] io_bind_def)
  show "snd (go rt c s) = Inl e"
    using bad by (simp add: go_created[OF cr] io_bind_def)
next
  assume "create c (getExtension (base (path_parse rt s))) (path_parse rt s) = Inl e"
  then show "go rt c s = ([], Inl e)"
    by (simp add: go_def Let_def io_throw_def)
qed

lemma my_flow_parsed:
  "path_parse unix ''force-app/main/default/flows/MyFlow.flow-meta.xml'' =
     path_of ''force-app/main/default/flows'' ''MyFlow.flow-meta.xml''"
  by (simp add: unix_def)

lemma my_flow_created:
  "create c (getExtension (base (path_parse unix ''force-app/main/default/flows/MyFlow.flow-meta.xml'')))
     (path_parse unix ''force-app/main/default/flows/MyFlow.flow-meta.xml'') = Inr (my_flow c)"
  using getExtension_more[of "''flow-meta''" "''xml''" "''MyFlow''"]
  by (simp add: my_flow_parsed path_of_def create_def my_flow_def)

theorem go_launches_browser_witness:
  "create demo_org
     (getExtension (base (path_parse unix ''force-app/main/default/flows/MyFlow.flow-meta.xml'')))
     (path_parse unix ''force-app/main/default/flows/MyFlow.flow-meta.xml'') = Inr (my_flow demo_org) \<and>
   snd (getUrl unix (my_flow demo_org)) = Inr ''lightning/setup/Flows/page?address=%2F300004'' \<and>
   commands (fst (go unix demo_org ''force-app/main/default/flows/MyFlow.flow-meta.xml'')) =
     [''open https://org.example/lightning/setup/Flows/page?address=%2F300004''] \<and>
   snd (getUrl unix (my_flow empty_org)) = Inl (Error ''Flow not found for MyFlow'') \<and>
   commands (fst (go unix empty_org ''force-app/main/default/flows/MyFlow.flow-meta.xml'')) = [] \<and>
   snd (go unix empty_org ''force-app/main/default/flows/MyFlow.flow-meta.xml'')
     = Inl (Error ''Flow not found for MyFlow'') \<and>
   create demo_org (getExtension (base (path_parse unix ''notes/todo.txt'')))
     (path_parse unix ''notes/todo.txt'') = Inl (Error ''Unsupported metadata type'') \<and>
   go unix demo_org ''notes/todo.txt'' = ([], Inl (Error ''Unsupported metadata type''))"
proof -
  have unsupported: "create demo_org (getExtension (base (path_parse unix ''notes/todo.txt'')))
     (path_parse unix ''notes/todo.txt'') = Inl (Error ''Unsupported metadata type'')"
    using getExtension_two[of "''todo''" "''txt''"]
    by (simp add: unix_def path_of_def create_def)
  have p: "platform unix \<noteq> ''win32''" "instanceUrl demo_org = ''https://org.example''"
    by (simp_all add: unix_def demo_org_def)
  show ?thesis
    using go_launches_browser[of demo_org unix "''force-app/main/default/flows/MyFlow.flow-meta.xml''"
        "my_flow demo_org" "''lightning/setup/Flows/page?address=%2F300004''"]
      go_launches_browser[of empty_org unix "''force-app/main/default/flows/MyFlow.flow-meta.xml''"
        "my_flow empty_org" _ "Error ''Flow not found for MyFlow''"]
      go_launches_browser[of demo_org unix "''notes/todo.txt''" _ _ "Error ''Unsupported metadata type''"]
      my_flow_created[of demo_org] my_flow_created[of empty_org] my_flow_demo[of unix]
      my_flow_empty[of unix] unsupported p
    by simp
qed

end
